theory Spec2Isabelle
  imports Complex_Main "HOL-Library.Sublist" "HOL-Library.Monad_Syntax"
begin

text \<open>
  A verification development for the module and integration core of BioCro: the
  integrator's entry point, the solver factory, four library modules
  (\<^verbatim>\<open>thermal_time_linear\<close>, \<^verbatim>\<open>ball_berry\<close>, \<^verbatim>\<open>penman_monteith_leaf_temperature\<close>,
  \<^verbatim>\<open>senescence_coefficient_logistic\<close>), the light macro environment \<^verbatim>\<open>lightME\<close> and
  the naming of multilayer quantities.

  The values of \<^verbatim>\<open>thermal_time_linear\<close> are IEEE 754 double-precision numbers with
  their rounding, signed zeros, infinities and NaN, since what is proved about that
  module is the value it writes. In the other modules and in \<^verbatim>\<open>lightME\<close> a C++
  \<^verbatim>\<open>double\<close> is modelled as a \<open>real\<close>: what is proved about them is which branch is
  taken, which slots are read and written, that equal inputs give equal outputs, and
  the exact constants \<open>0\<close> and \<open>1\<close>.
\<close>

section \<open>The integrator's entry point\<close>

text \<open>
  \<^verbatim>\<open>integrator::integrate\<close> takes a shared pointer to a dynamical system and calls two
  of its methods, \<^verbatim>\<open>is_adaptive_compatible()\<close> and \<^verbatim>\<open>reset_ncalls()\<close>. Of the system only
  what these two methods touch is kept: the compatibility flag and the evaluation
  counter. The system is shared and mutated in place, so every operation that may change
  it returns the new system.
\<close>

record dynamical_system =
  adaptive_compatible :: bool
  ncalls :: nat

text \<open>
  Modelled from the spec: \<^verbatim>\<open>dynamical_system::is_adaptive_compatible\<close> and
  \<^verbatim>\<open>dynamical_system::reset_ncalls\<close> are declared outside the available sources. The
  compatibility report is "a static property fixed at construction, not recomputed per
  call", and \<^verbatim>\<open>reset_ncalls()\<close> "zeroes an evaluation counter".
\<close>

definition is_adaptive_compatible :: "dynamical_system \<Rightarrow> bool" where
  "is_adaptive_compatible sys = adaptive_compatible sys"

definition reset_ncalls :: "dynamical_system \<Rightarrow> dynamical_system" where
  "reset_ncalls sys = sys\<lparr>ncalls := 0\<rparr>"

record integrator =
  integrate_method_has_been_called :: bool
  check_adaptive_compatible :: bool

text \<open>
  \<^verbatim>\<open>do_integrate\<close> and \<^verbatim>\<open>handle_adaptive_incompatibility\<close> are virtual member functions
  supplied by the concrete integrator; here they are parameters. A member function sees
  the integrator object and the shared system, may change both, and returns the
  \<^verbatim>\<open>state_vector_map\<close> of results (the type \<open>'r\<close>).
\<close>

type_synonym 'r integrator_method =
  "integrator \<Rightarrow> dynamical_system \<Rightarrow> 'r \<times> integrator \<times> dynamical_system"

definition integrate ::
  "'r integrator_method \<Rightarrow> 'r integrator_method \<Rightarrow> 'r integrator_method" where
  "integrate do_integrate handle_adaptive_incompatibility this sys =
     (let this1 = this\<lparr>integrate_method_has_been_called := True\<rparr> in
      if check_adaptive_compatible this1 \<and> \<not> is_adaptive_compatible sys
      then handle_adaptive_incompatibility this1 sys
      else do_integrate this1 (reset_ncalls sys))"

section \<open>Errors\<close>

text \<open>
  \<^verbatim>\<open>out_of_range\<close> is \<^verbatim>\<open>std::out_of_range\<close> with the message that its \<^verbatim>\<open>what()\<close> returns.
  \<^verbatim>\<open>what()\<close> returns a C string, and a C string ends at its first NUL character:
  \<open>c_str\<close> is the part of a \<^verbatim>\<open>std::string\<close> that a reader of the C string sees.
  \<^verbatim>\<open>MissingInput\<close> is the construction failure of a module one of whose declared inputs
  is absent from the input store.
\<close>

datatype error = out_of_range string | MissingInput string

definition c_str :: "string \<Rightarrow> string" where
  "c_str s = takeWhile (\<lambda>c. c \<noteq> CHR 0x00) s"

definition std_out_of_range :: "string \<Rightarrow> error" where
  "std_out_of_range message = out_of_range (c_str message)"

definition bind_error :: "error + 'a \<Rightarrow> ('a \<Rightarrow> error + 'b) \<Rightarrow> error + 'b" where
  "bind_error r f = (case r of Inl e \<Rightarrow> Inl e | Inr x \<Rightarrow> f x)"

section \<open>Double-precision numbers\<close>

text \<open>
  A \<^verbatim>\<open>double\<close> is an IEEE 754 binary64 number: a finite value (\<open>Finite 0\<close> is the
  positive zero), the negative zero, an infinity or a NaN. The finite doubles are the
  reals \<open>m * 2 ^ (e - 52)\<close> with \<open>|m| < 2 ^ 53\<close> and \<open>- 1022 \<le> e \<le> 1023\<close>.
\<close>

datatype double = Finite real | NegZero | PInf | NInf | NaN

text \<open>
  The binade of a magnitude is the exponent \<open>e\<close> with \<open>2 ^ e \<le> ax < 2 ^ (e + 1)\<close>, kept
  between \<open>- 1022\<close> (below it the numbers are subnormal and share the spacing of the
  lowest binade) and \<open>1023\<close>. It is found by going down from the top binade.
\<close>

fun binade_search :: "real \<Rightarrow> nat \<Rightarrow> int" where
  "binade_search ax 0 = - 1022"
| "binade_search ax (Suc n) =
     (if 2 powi (int (Suc n) - 1022) \<le> ax then int (Suc n) - 1022 else binade_search ax n)"

definition binade :: "real \<Rightarrow> int" where
  "binade ax = binade_search ax 2045"

definition round_half_even :: "real \<Rightarrow> int" where
  "round_half_even y =
     (let f = \<lfloor>y\<rfloor>; d = y - of_int f
      in if d < 1 / 2 then f else if 1 / 2 < d then f + 1 else if even f then f else f + 1)"

text \<open>
  Rounding to nearest, ties to even, of the exact result \<open>x\<close> of an operation: the
  magnitude is rounded to a multiple of the spacing \<open>2 ^ (binade - 52)\<close>; a result of
  \<open>2 ^ 1024\<close> or more is an infinity, and a result rounded to zero keeps the sign of \<open>x\<close>.
\<close>

definition round_double :: "real \<Rightarrow> double" where
  "round_double x =
     (let ax = \<bar>x\<bar>;
          q = 2 powi (binade ax - 52);
          r = of_int (round_half_even (ax / q)) * q
      in if 2 powi 1024 \<le> r then (if x < 0 then NInf else PInf)
         else if r = 0 then (if x < 0 then NegZero else Finite 0)
         else Finite (if x < 0 then - r else r))"

fun finite_value :: "double \<Rightarrow> real" where
  "finite_value (Finite r) = r"
| "finite_value d = 0"

text \<open>The comparison \<^verbatim>\<open><=\<close>: false when an operand is a NaN; the two zeros are equal.\<close>

fun fle :: "double \<Rightarrow> double \<Rightarrow> bool" where
  "fle NaN b = False"
| "fle a NaN = False"
| "fle NInf b = True"
| "fle a PInf = True"
| "fle PInf b = False"
| "fle a NInf = False"
| "fle a b = (finite_value a \<le> finite_value b)"

text \<open>
  The subtraction \<^verbatim>\<open>-\<close>. An exact difference of zero is the positive zero, except that
  \<open>(-0) - (+0)\<close> is the negative zero.
\<close>

fun fsub :: "double \<Rightarrow> double \<Rightarrow> double" where
  "fsub NaN b = NaN"
| "fsub a NaN = NaN"
| "fsub PInf PInf = NaN"
| "fsub NInf NInf = NaN"
| "fsub PInf b = PInf"
| "fsub NInf b = NInf"
| "fsub a PInf = NInf"
| "fsub a NInf = PInf"
| "fsub a b =
     (let x = finite_value a - finite_value b
      in if x = 0 then (if a = NegZero \<and> b \<noteq> NegZero then NegZero else Finite 0)
         else round_double x)"

text \<open>
  The division \<^verbatim>\<open>/\<close> by a positive finite constant \<open>d\<close> that is itself a double, as in
  \<^verbatim>\<open>rate_per_day / 24.0\<close>.
\<close>

fun fdiv_pos :: "double \<Rightarrow> real \<Rightarrow> double" where
  "fdiv_pos NaN d = NaN"
| "fdiv_pos PInf d = PInf"
| "fdiv_pos NInf d = NInf"
| "fdiv_pos NegZero d = NegZero"
| "fdiv_pos (Finite r) d = round_double (r / d)"

section \<open>Quantity stores and slots\<close>

text \<open>
  \<^verbatim>\<open>state_map\<close> is \<^verbatim>\<open>std::unordered_map<std::string, double>\<close>. A module keeps
  references (\<^verbatim>\<open>double const&\<close>, \<^verbatim>\<open>const double*\<close>) to entries of the input store and
  pointers (\<^verbatim>\<open>double*\<close>) to entries of the output store. An entry of a map is identified
  by its key, so a reference or pointer to an entry is modelled by the key: a \<open>slot\<close>.
  \<open>double_state_map\<close> is the store with double-precision values, \<open>state_map\<close> the store
  with values modelled as reals; binding and writing do not depend on the values.
\<close>

type_synonym state_map = "string \<rightharpoonup> real"

type_synonym double_state_map = "string \<rightharpoonup> double"

type_synonym slot = string

text \<open>
  Modelled from the spec: \<^verbatim>\<open>get_input\<close>, \<^verbatim>\<open>get_ip\<close>, \<^verbatim>\<open>get_op\<close> and \<^verbatim>\<open>update\<close> are
  helpers of the module base classes, declared outside the available sources. A module
  "binds each declared name to a storage location in the shared store at construction";
  "construction fails with \<^verbatim>\<open>MissingInput\<close> if any declared input name is absent from the
  provided input store at bind time"; evaluation "writes into bound output slots", and
  a write to the store is an overwrite. \<^verbatim>\<open>get_input\<close> returns a reference and
  \<^verbatim>\<open>get_ip\<close> a pointer; both are slots here.
\<close>

definition get_input :: "(string \<rightharpoonup> 'v) \<Rightarrow> string \<Rightarrow> error + slot" where
  "get_input input_quantities name =
     (case input_quantities name of
        None \<Rightarrow> Inl (MissingInput name)
      | Some _ \<Rightarrow> Inr name)"

definition get_ip :: "(string \<rightharpoonup> 'v) \<Rightarrow> string \<Rightarrow> error + slot" where
  "get_ip input_parameters name = get_input input_parameters name"

definition get_op :: "(string \<rightharpoonup> 'v) \<Rightarrow> string \<Rightarrow> error + slot" where
  "get_op output_quantities name = Inr name"

definition update :: "slot \<Rightarrow> 'v \<Rightarrow> (string \<rightharpoonup> 'v) \<Rightarrow> (string \<rightharpoonup> 'v)" where
  "update output_ptr v output_quantities = output_quantities(output_ptr \<mapsto> v)"

text \<open>
  \<^verbatim>\<open>do_operation\<close> of a module is a sequence of \<^verbatim>\<open>update(pointer, value)\<close> calls. Each
  \<^verbatim>\<open>do_operation\<close> below returns this sequence, in the order of the calls, and
  \<open>apply_updates\<close> performs them on the output store. Reading through a reference is a
  lookup of its slot in the input store; a slot that the store does not have (a
  dangling reference) makes the evaluation return \<open>None\<close>.
\<close>

definition apply_updates ::
  "(string \<rightharpoonup> 'v) \<Rightarrow> (slot \<times> 'v) list \<Rightarrow> (string \<rightharpoonup> 'v)" where
  "apply_updates output_quantities calls =
     foldl (\<lambda>out (output_ptr, v). update output_ptr v out) output_quantities calls"

section \<open>The module \<^verbatim>\<open>thermal_time_linear\<close>\<close>

record thermal_time_linear =
  temp :: slot
  tbase :: slot
  TTc_op :: slot

definition thermal_time_linear_new ::
  "double_state_map \<Rightarrow> double_state_map \<Rightarrow> error + thermal_time_linear" where
  "thermal_time_linear_new input_parameters output_parameters =
     bind_error (get_input input_parameters ''temp'') (\<lambda>r1.
     bind_error (get_input input_parameters ''tbase'') (\<lambda>r2.
     bind_error (get_op output_parameters ''TTc'') (\<lambda>p1.
     Inr \<lparr>temp = r1, tbase = r2, TTc_op = p1\<rparr>)))"

definition thermal_time_linear_get_inputs :: "string list" where
  "thermal_time_linear_get_inputs = [''temp'', ''tbase'']"

definition thermal_time_linear_get_outputs :: "string list" where
  "thermal_time_linear_get_outputs = [''TTc'']"

text \<open>The names of the input-store entries that a constructed module holds references to.\<close>

definition thermal_time_linear_bound_inputs :: "thermal_time_linear \<Rightarrow> string list" where
  "thermal_time_linear_bound_inputs m = [temp m, tbase m]"

definition thermal_time_linear_do_operation ::
  "thermal_time_linear \<Rightarrow> double_state_map \<Rightarrow> (slot \<times> double) list option" where
  "thermal_time_linear_do_operation m input_parameters = do {
     v_temp \<leftarrow> input_parameters (temp m);
     v_tbase \<leftarrow> input_parameters (tbase m);
     let rate_per_day = (if fle v_temp v_tbase then Finite 0 else fsub v_temp v_tbase);
     let rate_per_hour = fdiv_pos rate_per_day 24;
     Some [(TTc_op m, rate_per_hour)]
   }"

section \<open>The module \<^verbatim>\<open>ball_berry\<close>\<close>

record ball_berry =
  net_assimilation_rate :: slot
  ambient_c :: slot
  ambient_rh :: slot
  b0 :: slot
  b1 :: slot
  gbw :: slot
  leaf_temperature :: slot
  ambient_air_temperature :: slot
  leaf_stomatal_conductance_op :: slot

definition ball_berry_new :: "state_map \<Rightarrow> state_map \<Rightarrow> error + ball_berry" where
  "ball_berry_new input_quantities output_quantities =
     bind_error (get_input input_quantities ''net_assimilation_rate'') (\<lambda>r1.
     bind_error (get_input input_quantities ''Catm'') (\<lambda>r2.
     bind_error (get_input input_quantities ''rh'') (\<lambda>r3.
     bind_error (get_input input_quantities ''b0'') (\<lambda>r4.
     bind_error (get_input input_quantities ''b1'') (\<lambda>r5.
     bind_error (get_input input_quantities ''gbw'') (\<lambda>r6.
     bind_error (get_input input_quantities ''leaf_temperature'') (\<lambda>r7.
     bind_error (get_input input_quantities ''temp'') (\<lambda>r8.
     bind_error (get_op output_quantities ''leaf_stomatal_conductance'') (\<lambda>p1.
     Inr \<lparr>net_assimilation_rate = r1, ambient_c = r2, ambient_rh = r3, b0 = r4, b1 = r5,
          gbw = r6, leaf_temperature = r7, ambient_air_temperature = r8,
          leaf_stomatal_conductance_op = p1\<rparr>)))))))))"

definition ball_berry_get_inputs :: "string list" where
  "ball_berry_get_inputs =
     [''net_assimilation_rate'', ''Catm'', ''rh'', ''b0'', ''b1'', ''gbw'',
      ''leaf_temperature'', ''temp'']"

definition ball_berry_get_outputs :: "string list" where
  "ball_berry_get_outputs = [''leaf_stomatal_conductance'']"

definition ball_berry_bound_inputs :: "ball_berry \<Rightarrow> string list" where
  "ball_berry_bound_inputs m =
     [net_assimilation_rate m, ambient_c m, ambient_rh m, b0 m, b1 m, gbw m,
      leaf_temperature m, ambient_air_temperature m]"

text \<open>
  \<^verbatim>\<open>ball_berry_gs\<close> is declared in \<^verbatim>\<open>ball_berry_gs.h\<close>, outside the available sources. It
  is a parameter: a function of its eight \<^verbatim>\<open>double\<close> arguments.
\<close>

type_synonym ball_berry_gs_fn =
  "real \<Rightarrow> real \<Rightarrow> real \<Rightarrow> real \<Rightarrow> real \<Rightarrow> real \<Rightarrow> real \<Rightarrow> real \<Rightarrow> real"

definition ball_berry_do_operation ::
  "ball_berry_gs_fn \<Rightarrow> ball_berry \<Rightarrow> state_map \<Rightarrow> (slot \<times> real) list option" where
  "ball_berry_do_operation ball_berry_gs m input_quantities = do {
     v_net_assimilation_rate \<leftarrow> input_quantities (net_assimilation_rate m);
     v_ambient_c \<leftarrow> input_quantities (ambient_c m);
     v_ambient_rh \<leftarrow> input_quantities (ambient_rh m);
     v_b0 \<leftarrow> input_quantities (b0 m);
     v_b1 \<leftarrow> input_quantities (b1 m);
     v_gbw \<leftarrow> input_quantities (gbw m);
     v_leaf_temperature \<leftarrow> input_quantities (leaf_temperature m);
     v_ambient_air_temperature \<leftarrow> input_quantities (ambient_air_temperature m);
     Some [(leaf_stomatal_conductance_op m,
            ball_berry_gs v_net_assimilation_rate v_ambient_c v_ambient_rh v_b0 v_b1 v_gbw
              v_leaf_temperature v_ambient_air_temperature)]
   }"

section \<open>The module \<^verbatim>\<open>penman_monteith_leaf_temperature\<close>\<close>

record penman_monteith_leaf_temperature =
  slope_water_vapor_ip :: slot
  psychrometric_parameter_ip :: slot
  latent_heat_vaporization_of_water_ip :: slot
  leaf_boundary_layer_conductance_ip :: slot
  leaf_stomatal_conductance_ip :: slot
  leaf_net_irradiance_ip :: slot
  vapor_density_deficit_ip :: slot
  temp_ip :: slot
  leaf_temperature_op :: slot

definition penman_monteith_leaf_temperature_new ::
  "state_map \<Rightarrow> state_map \<Rightarrow> error + penman_monteith_leaf_temperature" where
  "penman_monteith_leaf_temperature_new input_parameters output_parameters =
     bind_error (get_ip input_parameters ''slope_water_vapor'') (\<lambda>r1.
     bind_error (get_ip input_parameters ''psychrometric_parameter'') (\<lambda>r2.
     bind_error (get_ip input_parameters ''latent_heat_vaporization_of_water'') (\<lambda>r3.
     bind_error (get_ip input_parameters ''leaf_boundary_layer_conductance'') (\<lambda>r4.
     bind_error (get_ip input_parameters ''leaf_stomatal_conductance'') (\<lambda>r5.
     bind_error (get_ip input_parameters ''leaf_net_irradiance'') (\<lambda>r6.
     bind_error (get_ip input_parameters ''vapor_density_deficit'') (\<lambda>r7.
     bind_error (get_ip input_parameters ''temp'') (\<lambda>r8.
     bind_error (get_op output_parameters ''leaf_temperature'') (\<lambda>p1.
     Inr \<lparr>slope_water_vapor_ip = r1, psychrometric_parameter_ip = r2,
          latent_heat_vaporization_of_water_ip = r3, leaf_boundary_layer_conductance_ip = r4,
          leaf_stomatal_conductance_ip = r5, leaf_net_irradiance_ip = r6,
          vapor_density_deficit_ip = r7, temp_ip = r8, leaf_temperature_op = p1\<rparr>)))))))))"

definition penman_monteith_leaf_temperature_get_inputs :: "string list" where
  "penman_monteith_leaf_temperature_get_inputs =
     [''slope_water_vapor'', ''psychrometric_parameter'', ''latent_heat_vaporization_of_water'',
      ''leaf_boundary_layer_conductance'', ''leaf_stomatal_conductance'',
      ''leaf_net_irradiance'', ''vapor_density_deficit'', ''temp'']"

definition penman_monteith_leaf_temperature_get_outputs :: "string list" where
  "penman_monteith_leaf_temperature_get_outputs = [''leaf_temperature'']"

definition penman_monteith_leaf_temperature_bound_inputs ::
  "penman_monteith_leaf_temperature \<Rightarrow> string list" where
  "penman_monteith_leaf_temperature_bound_inputs m =
     [slope_water_vapor_ip m, psychrometric_parameter_ip m,
      latent_heat_vaporization_of_water_ip m, leaf_boundary_layer_conductance_ip m,
      leaf_stomatal_conductance_ip m, leaf_net_irradiance_ip m, vapor_density_deficit_ip m,
      temp_ip m]"

definition volume_of_one_mole_of_air :: real where
  "volume_of_one_mole_of_air = 24.39 / 1000"

definition penman_monteith_leaf_temperature_do_operation ::
  "penman_monteith_leaf_temperature \<Rightarrow> state_map \<Rightarrow> (slot \<times> real) list option" where
  "penman_monteith_leaf_temperature_do_operation m input_parameters = do {
     slope_water_vapor \<leftarrow> input_parameters (slope_water_vapor_ip m);
     psychr_parameter \<leftarrow> input_parameters (psychrometric_parameter_ip m);
     LHV \<leftarrow> input_parameters (latent_heat_vaporization_of_water_ip m);
     ga \<leftarrow> input_parameters (leaf_boundary_layer_conductance_ip m);
     air_temperature \<leftarrow> input_parameters (temp_ip m);
     leaf_stomatal_conductance \<leftarrow> input_parameters (leaf_stomatal_conductance_ip m);
     leaf_net_irradiance \<leftarrow> input_parameters (leaf_net_irradiance_ip m);
     vapor_density_deficit \<leftarrow> input_parameters (vapor_density_deficit_ip m);
     let gc = leaf_stomatal_conductance * (1 / 1000) * volume_of_one_mole_of_air;
     let delta_t = (leaf_net_irradiance * (1 / ga + 1 / gc) - LHV * vapor_density_deficit)
                   / (LHV * (slope_water_vapor + psychr_parameter * (1 + ga / gc)));
     let leaf_temperature_v = air_temperature + delta_t;
     Some [(leaf_temperature_op m, leaf_temperature_v)]
   }"

section \<open>The module \<^verbatim>\<open>senescence_coefficient_logistic\<close>\<close>

definition ksene :: "real \<Rightarrow> real \<Rightarrow> real \<Rightarrow> real \<Rightarrow> real" where
  "ksene rate alpha beta dvi = rate / (1 + exp (alpha + beta * dvi))"

record senescence_coefficient_logistic =
  DVI :: slot
  alphaSeneStem :: slot
  alphaSeneLeaf :: slot
  betaSeneStem :: slot
  betaSeneLeaf :: slot
  rateSeneLeaf :: slot
  rateSeneStem :: slot
  alphaSeneRoot :: slot
  alphaSeneRhizome :: slot
  betaSeneRoot :: slot
  betaSeneRhizome :: slot
  rateSeneRoot :: slot
  rateSeneRhizome :: slot
  kSeneStem_op :: slot
  kSeneLeaf_op :: slot
  kSeneRoot_op :: slot
  kSeneRhizome_op :: slot

definition senescence_coefficient_logistic_new ::
  "state_map \<Rightarrow> state_map \<Rightarrow> error + senescence_coefficient_logistic" where
  "senescence_coefficient_logistic_new input_parameters output_parameters =
     bind_error (get_input input_parameters ''DVI'') (\<lambda>r1.
     bind_error (get_input input_parameters ''alphaSeneStem'') (\<lambda>r2.
     bind_error (get_input input_parameters ''alphaSeneLeaf'') (\<lambda>r3.
     bind_error (get_input input_parameters ''betaSeneStem'') (\<lambda>r4.
     bind_error (get_input input_parameters ''betaSeneLeaf'') (\<lambda>r5.
     bind_error (get_input input_parameters ''rateSeneLeaf'') (\<lambda>r6.
     bind_error (get_input input_parameters ''rateSeneStem'') (\<lambda>r7.
     bind_error (get_input input_parameters ''alphaSeneRoot'') (\<lambda>r8.
     bind_error (get_input input_parameters ''alphaSeneRhizome'') (\<lambda>r9.
     bind_error (get_input input_parameters ''betaSeneRoot'') (\<lambda>r10.
     bind_error (get_input input_parameters ''betaSeneRhizome'') (\<lambda>r11.
     bind_error (get_input input_parameters ''rateSeneRoot'') (\<lambda>r12.
     bind_error (get_input input_parameters ''rateSeneRhizome'') (\<lambda>r13.
     bind_error (get_op output_parameters ''kSeneStem'') (\<lambda>p1.
     bind_error (get_op output_parameters ''kSeneLeaf'') (\<lambda>p2.
     bind_error (get_op output_parameters ''kSeneRoot'') (\<lambda>p3.
     bind_error (get_op output_parameters ''kSeneRhizome'') (\<lambda>p4.
     Inr \<lparr>DVI = r1, alphaSeneStem = r2, alphaSeneLeaf = r3, betaSeneStem = r4,
          betaSeneLeaf = r5, rateSeneLeaf = r6, rateSeneStem = r7, alphaSeneRoot = r8,
          alphaSeneRhizome = r9, betaSeneRoot = r10, betaSeneRhizome = r11,
          rateSeneRoot = r12, rateSeneRhizome = r13, kSeneStem_op = p1, kSeneLeaf_op = p2,
          kSeneRoot_op = p3, kSeneRhizome_op = p4\<rparr>)))))))))))))))))"

definition senescence_coefficient_logistic_get_inputs :: "string list" where
  "senescence_coefficient_logistic_get_inputs =
     [''DVI'', ''alphaSeneStem'', ''alphaSeneLeaf'', ''betaSeneStem'', ''betaSeneLeaf'',
      ''rateSeneLeaf'', ''rateSeneStem'', ''alphaSeneRoot'', ''alphaSeneRhizome'',
      ''betaSeneRoot'', ''betaSeneRhizome'', ''rateSeneRoot'', ''rateSeneRhizome'']"

definition senescence_coefficient_logistic_get_outputs :: "string list" where
  "senescence_coefficient_logistic_get_outputs =
     [''kSeneStem'', ''kSeneLeaf'', ''kSeneRoot'', ''kSeneRhizome'']"

definition senescence_coefficient_logistic_bound_inputs ::
  "senescence_coefficient_logistic \<Rightarrow> string list" where
  "senescence_coefficient_logistic_bound_inputs m =
     [DVI m, alphaSeneStem m, alphaSeneLeaf m, betaSeneStem m, betaSeneLeaf m,
      rateSeneLeaf m, rateSeneStem m, alphaSeneRoot m, alphaSeneRhizome m, betaSeneRoot m,
      betaSeneRhizome m, rateSeneRoot m, rateSeneRhizome m]"

definition senescence_coefficient_logistic_do_operation ::
  "senescence_coefficient_logistic \<Rightarrow> state_map \<Rightarrow> (slot \<times> real) list option" where
  "senescence_coefficient_logistic_do_operation m input_parameters = do {
     v_rateSeneStem \<leftarrow> input_parameters (rateSeneStem m);
     v_alphaSeneStem \<leftarrow> input_parameters (alphaSeneStem m);
     v_betaSeneStem \<leftarrow> input_parameters (betaSeneStem m);
     v_DVI \<leftarrow> input_parameters (DVI m);
     let kSeneStem = ksene v_rateSeneStem v_alphaSeneStem v_betaSeneStem v_DVI;
     v_rateSeneLeaf \<leftarrow> input_parameters (rateSeneLeaf m);
     v_alphaSeneLeaf \<leftarrow> input_parameters (alphaSeneLeaf m);
     v_betaSeneLeaf \<leftarrow> input_parameters (betaSeneLeaf m);
     let kSeneLeaf = ksene v_rateSeneLeaf v_alphaSeneLeaf v_betaSeneLeaf v_DVI;
     v_rateSeneRoot \<leftarrow> input_parameters (rateSeneRoot m);
     v_alphaSeneRoot \<leftarrow> input_parameters (alphaSeneRoot m);
     v_betaSeneRoot \<leftarrow> input_parameters (betaSeneRoot m);
     let kSeneRoot = ksene v_rateSeneRoot v_alphaSeneRoot v_betaSeneRoot v_DVI;
     v_rateSeneRhizome \<leftarrow> input_parameters (rateSeneRhizome m);
     v_alphaSeneRhizome \<leftarrow> input_parameters (alphaSeneRhizome m);
     v_betaSeneRhizome \<leftarrow> input_parameters (betaSeneRhizome m);
     let kSeneRhizome = ksene v_rateSeneRhizome v_alphaSeneRhizome v_betaSeneRhizome v_DVI;
     Some [(kSeneStem_op m, kSeneStem), (kSeneLeaf_op m, kSeneLeaf),
           (kSeneRoot_op m, kSeneRoot), (kSeneRhizome_op m, kSeneRhizome)]
   }"

section \<open>The light macro environment\<close>

record Light_model =
  direct_transmittance :: real
  diffuse_transmittance :: real
  direct_fraction :: real
  diffuse_fraction :: real

text \<open>
  The constant \<^verbatim>\<open>physical_constants::atmospheric_pressure_at_sea_level\<close> is defined in
  \<^verbatim>\<open>constants.h\<close>, outside the available sources; it is the first parameter. The C
  library's \<^verbatim>\<open>pow\<close> is \<open>powr\<close>.
\<close>

definition lightME :: "real \<Rightarrow> real \<Rightarrow> real \<Rightarrow> real \<Rightarrow> real \<Rightarrow> Light_model" where
  "lightME atmospheric_pressure_at_sea_level cosine_zenith_angle atmospheric_pressure
     atmospheric_transmittance atmospheric_scattering =
     (let pressure_ratio = atmospheric_pressure / atmospheric_pressure_at_sea_level;
          v_direct_transmittance =
            (if cosine_zenith_angle \<le> 0 then 0
             else atmospheric_transmittance powr (pressure_ratio / cosine_zenith_angle));
          v_diffuse_transmittance =
            (if cosine_zenith_angle \<le> 0 then 1
             else atmospheric_scattering * (1 - v_direct_transmittance) * cosine_zenith_angle);
          v_direct_fraction =
            v_direct_transmittance / (v_direct_transmittance + v_diffuse_transmittance);
          v_diffuse_fraction = 1 - v_direct_fraction
      in \<lparr>direct_transmittance = v_direct_transmittance,
          diffuse_transmittance = v_diffuse_transmittance,
          direct_fraction = v_direct_fraction,
          diffuse_fraction = v_diffuse_fraction\<rparr>)"

section \<open>The solver factory\<close>

text \<open>
  Modelled from the spec: the solver classes and \<^verbatim>\<open>createSystemSolver<solver_type>\<close> are
  declared in headers outside the available sources. The registry maps "solver
  identifiers to constructors with tunable step size and error tolerances": a creator
  builds a solver of its class from the four parameters and does not fail. A
  \<open>system_solver\<close> records its class and the parameters it was built with.
\<close>

datatype solver_type =
  auto_solver
| homemade_euler_solver
| boost_euler_system_solver
| boost_rsnbrk_system_solver
| boost_rk4_system_solver
| boost_rkck54_system_solver

record system_solver =
  solver_class :: solver_type
  step_size :: real
  rel_error_tolerance :: real
  abs_error_tolerance :: real
  max_steps :: int

type_synonym system_solver_creator = "real \<Rightarrow> real \<Rightarrow> real \<Rightarrow> int \<Rightarrow> system_solver"

definition createSystemSolver :: "solver_type \<Rightarrow> system_solver_creator" where
  "createSystemSolver t v_step_size v_rel_error_tolerance v_abs_error_tolerance v_max_steps =
     \<lparr>solver_class = t, step_size = v_step_size, rel_error_tolerance = v_rel_error_tolerance,
      abs_error_tolerance = v_abs_error_tolerance, max_steps = v_max_steps\<rparr>"

text \<open>
  The registry, with the entries in the order of the initialiser list. Its keys are
  pairwise different, so a lookup by key finds the entry of the initialiser list with
  that key.
\<close>

definition system_solver_creators :: "(string \<times> system_solver_creator) list" where
  "system_solver_creators =
     [(''Gro'', createSystemSolver auto_solver),
      (''Gro_euler'', createSystemSolver homemade_euler_solver),
      (''Gro_euler_odeint'', createSystemSolver boost_euler_system_solver),
      (''Gro_rsnbrk'', createSystemSolver boost_rsnbrk_system_solver),
      (''Gro_rk4'', createSystemSolver boost_rk4_system_solver),
      (''Gro_rkck54'', createSystemSolver boost_rkck54_system_solver)]"

text \<open>The message built in the \<^verbatim>\<open>catch\<close> block; \<open>CHR 0x22\<close> is the double quote.\<close>

definition unknown_solver_message :: "string \<Rightarrow> string" where
  "unknown_solver_message system_solver_name =
     [CHR 0x22] @ system_solver_name @ [CHR 0x22] @
     '' was given as a system_solver name, '' @
     ''but no system_solver with that name could be found.'' @ [CHR 0x0A] @ ''.''"

text \<open>
  \<^verbatim>\<open>SystemSolverFactory::operator()\<close>: \<^verbatim>\<open>at\<close> throws \<^verbatim>\<open>std::out_of_range\<close> for a key that
  the registry does not have, and the \<^verbatim>\<open>catch\<close> block throws a new \<^verbatim>\<open>std::out_of_range\<close>
  constructed from the message above. The keys of the registry are compared as
  \<^verbatim>\<open>std::string\<close>s, in full.
\<close>

definition system_solver_factory :: "string \<Rightarrow> real \<Rightarrow> real \<Rightarrow> real \<Rightarrow> int \<Rightarrow> error + system_solver" where
  "system_solver_factory system_solver_name v_step_size v_rel_error_tolerance
     v_abs_error_tolerance v_max_steps =
     (case map_of system_solver_creators system_solver_name of
        Some creator \<Rightarrow>
          Inr (creator v_step_size v_rel_error_tolerance v_abs_error_tolerance v_max_steps)
      | None \<Rightarrow> Inl (std_out_of_range (unknown_solver_message system_solver_name)))"

definition get_solvers :: "string list" where
  "get_solvers = map fst system_solver_creators"

section \<open>Names of multilayer quantities\<close>









section \<open>The bindings of a constructed module\<close>

text \<open>
  The string literals of a constructor are fixed, so a construction that succeeds yields
  the same references and pointers whatever the stores are. These are the four
  modules as their constructors build them.
\<close>

definition thermal_time_linear_bindings :: thermal_time_linear where
  "thermal_time_linear_bindings = \<lparr>temp = ''temp'', tbase = ''tbase'', TTc_op = ''TTc''\<rparr>"

definition ball_berry_bindings :: ball_berry where
  "ball_berry_bindings =
     \<lparr>net_assimilation_rate = ''net_assimilation_rate'', ambient_c = ''Catm'',
      ambient_rh = ''rh'', b0 = ''b0'', b1 = ''b1'', gbw = ''gbw'',
      leaf_temperature = ''leaf_temperature'', ambient_air_temperature = ''temp'',
      leaf_stomatal_conductance_op = ''leaf_stomatal_conductance''\<rparr>"

definition penman_monteith_leaf_temperature_bindings :: penman_monteith_leaf_temperature where
  "penman_monteith_leaf_temperature_bindings =
     \<lparr>slope_water_vapor_ip = ''slope_water_vapor'',
      psychrometric_parameter_ip = ''psychrometric_parameter'',
      latent_heat_vaporization_of_water_ip = ''latent_heat_vaporization_of_water'',
      leaf_boundary_layer_conductance_ip = ''leaf_boundary_layer_conductance'',
      leaf_stomatal_conductance_ip = ''leaf_stomatal_conductance'',
      leaf_net_irradiance_ip = ''leaf_net_irradiance'',
      vapor_density_deficit_ip = ''vapor_density_deficit'', temp_ip = ''temp'',
      leaf_temperature_op = ''leaf_temperature''\<rparr>"

definition senescence_coefficient_logistic_bindings :: senescence_coefficient_logistic where
  "senescence_coefficient_logistic_bindings =
     \<lparr>DVI = ''DVI'', alphaSeneStem = ''alphaSeneStem'', alphaSeneLeaf = ''alphaSeneLeaf'',
      betaSeneStem = ''betaSeneStem'', betaSeneLeaf = ''betaSeneLeaf'',
      rateSeneLeaf = ''rateSeneLeaf'', rateSeneStem = ''rateSeneStem'',
      alphaSeneRoot = ''alphaSeneRoot'', alphaSeneRhizome = ''alphaSeneRhizome'',
      betaSeneRoot = ''betaSeneRoot'', betaSeneRhizome = ''betaSeneRhizome'',
      rateSeneRoot = ''rateSeneRoot'', rateSeneRhizome = ''rateSeneRhizome'',
      kSeneStem_op = ''kSeneStem'', kSeneLeaf_op = ''kSeneLeaf'',
      kSeneRoot_op = ''kSeneRoot'', kSeneRhizome_op = ''kSeneRhizome''\<rparr>"

section \<open>Example inputs\<close>

text \<open>
  A member function that changes nothing and reports what it was called with: its tag,
  the evaluation counter of the system and the flag of the integrator.
\<close>

definition reporting_method :: "string \<Rightarrow> (string \<times> nat \<times> bool) integrator_method" where
  "reporting_method tag this sys =
     ((tag, ncalls sys, integrate_method_has_been_called this), this, sys)"

text \<open>
  A store that has every input of the three modules with real values, a store with the
  inputs of \<^verbatim>\<open>thermal_time_linear\<close>, and a stand-in for \<^verbatim>\<open>ball_berry_gs\<close>.
\<close>

definition example_quantities :: state_map where
  "example_quantities = map_of
     [(''temp'', 15), (''tbase'', 10),
      (''net_assimilation_rate'', 2 / 100000), (''Catm'', 4 / 10000), (''rh'', 7 / 10),
      (''b0'', 8 / 100), (''b1'', 3), (''gbw'', 12 / 10), (''leaf_temperature'', 27),
      (''slope_water_vapor'', 1 / 1000), (''psychrometric_parameter'', 1 / 2000),
      (''latent_heat_vaporization_of_water'', 2500000),
      (''leaf_boundary_layer_conductance'', 1 / 50), (''leaf_stomatal_conductance'', 300),
      (''leaf_net_irradiance'', 250), (''vapor_density_deficit'', 1 / 100),
      (''DVI'', 1), (''alphaSeneStem'', 10), (''alphaSeneLeaf'', 10), (''betaSeneStem'', - 8),
      (''betaSeneLeaf'', - 8), (''rateSeneLeaf'', 1 / 100), (''rateSeneStem'', 1 / 1000),
      (''alphaSeneRoot'', 10), (''alphaSeneRhizome'', 10), (''betaSeneRoot'', - 8),
      (''betaSeneRhizome'', - 8), (''rateSeneRoot'', 1 / 1000), (''rateSeneRhizome'', 1 / 1000)]"

definition example_double_quantities :: double_state_map where
  "example_double_quantities = [''temp'' \<mapsto> Finite 15, ''tbase'' \<mapsto> Finite 10]"

definition example_ball_berry_gs :: ball_berry_gs_fn where
  "example_ball_berry_gs a c h v_b0 v_b1 g t_leaf t_air = v_b0 + v_b1 * a * h / c"


section \<open>The integrator: which algorithm runs\<close>

text \<open>
  Claim C1. For every system and every integrator: when \<^verbatim>\<open>check_adaptive_compatible\<close> is
  set and the system reports that it is not compatible with adaptive stepping,
  \<^verbatim>\<open>integrate\<close> returns what \<^verbatim>\<open>handle_adaptive_incompatibility\<close> returns, whatever the
  stepping algorithm \<^verbatim>\<open>do_integrate\<close> is (it is not run). In every other case \<^verbatim>\<open>integrate\<close>
  returns what \<^verbatim>\<open>do_integrate\<close> returns on the system whose evaluation counter has been
  reset to zero, whatever the fallback handler is.
\<close>

theorem integrate_dispatch:
  "(check_adaptive_compatible this \<and> \<not> is_adaptive_compatible sys \<longrightarrow>
      (\<forall>d. integrate d handle_adaptive_incompatibility this sys =
           handle_adaptive_incompatibility
             (this\<lparr>integrate_method_has_been_called := True\<rparr>) sys))
   \<and> (\<not> (check_adaptive_compatible this \<and> \<not> is_adaptive_compatible sys) \<longrightarrow>
      (\<forall>h. integrate do_integrate h this sys =
           do_integrate (this\<lparr>integrate_method_has_been_called := True\<rparr>) (reset_ncalls sys))
      \<and> ncalls (reset_ncalls sys) = 0)"
  by (auto simp: integrate_def reset_ncalls_def Let_def)

theorem integrate_dispatch_witness:
  "integrate (reporting_method ''do_integrate'') (reporting_method ''fallback'')
     \<lparr>integrate_method_has_been_called = False, check_adaptive_compatible = True\<rparr>
     \<lparr>adaptive_compatible = False, ncalls = 7\<rparr>
   = ((''fallback'', 7, True),
      \<lparr>integrate_method_has_been_called = True, check_adaptive_compatible = True\<rparr>,
      \<lparr>adaptive_compatible = False, ncalls = 7\<rparr>)
   \<and> integrate (reporting_method ''do_integrate'') (reporting_method ''fallback'')
     \<lparr>integrate_method_has_been_called = False, check_adaptive_compatible = True\<rparr>
     \<lparr>adaptive_compatible = True, ncalls = 7\<rparr>
   = ((''do_integrate'', 0, True),
      \<lparr>integrate_method_has_been_called = True, check_adaptive_compatible = True\<rparr>,
      \<lparr>adaptive_compatible = True, ncalls = 0\<rparr>)"
  using
    integrate_dispatch [of
      "\<lparr>integrate_method_has_been_called = False, check_adaptive_compatible = True\<rparr>"
      "\<lparr>adaptive_compatible = False, ncalls = 7\<rparr>"
      "reporting_method ''fallback''" "reporting_method ''do_integrate''"]
    integrate_dispatch [of
      "\<lparr>integrate_method_has_been_called = False, check_adaptive_compatible = True\<rparr>"
      "\<lparr>adaptive_compatible = True, ncalls = 7\<rparr>"
      "reporting_method ''fallback''" "reporting_method ''do_integrate''"]
  by (simp add: is_adaptive_compatible_def reset_ncalls_def reporting_method_def)

section \<open>The integrator: the evaluation counter and the flag\<close>

text \<open>
  Claim C8. On the fallback path \<^verbatim>\<open>handle_adaptive_incompatibility\<close> receives the system as
  it was passed to \<^verbatim>\<open>integrate\<close>, its evaluation counter not reset; \<^verbatim>\<open>reset_ncalls\<close> is
  applied on the other path only, before \<^verbatim>\<open>do_integrate\<close>. On both paths the member
  function that runs sees \<^verbatim>\<open>integrate_method_has_been_called\<close> set. With member functions
  that change nothing, after \<^verbatim>\<open>integrate\<close> the flag is set on both paths, and the system
  is unchanged on the fallback path and has its counter reset on the other.
\<close>

theorem integrate_counter_and_flag:
  "(check_adaptive_compatible this \<and> \<not> is_adaptive_compatible sys \<longrightarrow>
      integrate do_integrate handle_adaptive_incompatibility this sys =
        handle_adaptive_incompatibility
          (this\<lparr>integrate_method_has_been_called := True\<rparr>) sys)
   \<and> (\<not> (check_adaptive_compatible this \<and> \<not> is_adaptive_compatible sys) \<longrightarrow>
      integrate do_integrate handle_adaptive_incompatibility this sys =
        do_integrate (this\<lparr>integrate_method_has_been_called := True\<rparr>) (sys\<lparr>ncalls := 0\<rparr>))
   \<and> integrate_method_has_been_called (this\<lparr>integrate_method_has_been_called := True\<rparr>)
   \<and> integrate (\<lambda>i s. (r, i, s)) (\<lambda>i s. (r, i, s)) this sys =
       (r, this\<lparr>integrate_method_has_been_called := True\<rparr>,
        if check_adaptive_compatible this \<and> \<not> is_adaptive_compatible sys then sys
        else sys\<lparr>ncalls := 0\<rparr>)"
  by (auto simp: integrate_def reset_ncalls_def Let_def)

theorem integrate_counter_and_flag_witness:
  "integrate (reporting_method ''do_integrate'') (reporting_method ''fallback'')
     \<lparr>integrate_method_has_been_called = False, check_adaptive_compatible = True\<rparr>
     \<lparr>adaptive_compatible = False, ncalls = 42\<rparr>
   = ((''fallback'', 42, True),
      \<lparr>integrate_method_has_been_called = True, check_adaptive_compatible = True\<rparr>,
      \<lparr>adaptive_compatible = False, ncalls = 42\<rparr>)
   \<and> integrate (reporting_method ''do_integrate'') (reporting_method ''fallback'')
     \<lparr>integrate_method_has_been_called = False, check_adaptive_compatible = False\<rparr>
     \<lparr>adaptive_compatible = False, ncalls = 42\<rparr>
   = ((''do_integrate'', 0, True),
      \<lparr>integrate_method_has_been_called = True, check_adaptive_compatible = False\<rparr>,
      \<lparr>adaptive_compatible = False, ncalls = 0\<rparr>)"
  using
    integrate_counter_and_flag [of
      "\<lparr>integrate_method_has_been_called = False, check_adaptive_compatible = True\<rparr>"
      "\<lparr>adaptive_compatible = False, ncalls = 42\<rparr>"
      "reporting_method ''do_integrate''" "reporting_method ''fallback''"
      "(''none'', 0::nat, False)"]
    integrate_counter_and_flag [of
      "\<lparr>integrate_method_has_been_called = False, check_adaptive_compatible = False\<rparr>"
      "\<lparr>adaptive_compatible = False, ncalls = 42\<rparr>"
      "reporting_method ''do_integrate''" "reporting_method ''fallback''"
      "(''none'', 0::nat, False)"]
  by (simp add: is_adaptive_compatible_def reporting_method_def)

section \<open>The light macro environment at night\<close>

text \<open>
  Claim C9. For every input with \<^verbatim>\<open>cosine_zenith_angle <= 0\<close>, \<^verbatim>\<open>lightME\<close> returns direct
  transmittance 0, diffuse transmittance 1, direct fraction 0 and diffuse fraction 1,
  whatever the atmospheric pressure, transmittance and scattering (and the sea-level
  pressure constant) are.
\<close>

theorem lightME_sun_below_horizon:
  "cosine_zenith_angle \<le> 0 \<Longrightarrow>
   lightME atmospheric_pressure_at_sea_level cosine_zenith_angle atmospheric_pressure
     atmospheric_transmittance atmospheric_scattering
   = \<lparr>direct_transmittance = 0, diffuse_transmittance = 1, direct_fraction = 0,
      diffuse_fraction = 1\<rparr>"
  by (simp add: lightME_def)

theorem lightME_sun_below_horizon_witness:
  "(- 1 / 2 :: real) \<le> 0 \<and> lightME 101325 (- 1 / 2) 90000 (85 / 100) (3 / 10)
   = \<lparr>direct_transmittance = 0, diffuse_transmittance = 1, direct_fraction = 0,
      diffuse_fraction = 1\<rparr>"
  using lightME_sun_below_horizon [of "- 1 / 2" 101325 90000 "85 / 100" "3 / 10"] by simp

section \<open>The solver factory: unknown and registered names\<close>

text \<open>The fixed parts of the message have no NUL character.\<close>

lemma c_str_unknown_solver_message:
  assumes "CHR 0x00 \<notin> set system_solver_name"
  shows "c_str (unknown_solver_message system_solver_name)
           = unknown_solver_message system_solver_name"
proof -
  from assms have "\<forall>c \<in> set (unknown_solver_message system_solver_name). c \<noteq> CHR 0x00"
    by (auto simp: unknown_solver_message_def)
  then show ?thesis
    unfolding c_str_def by (simp add: takeWhile_eq_all_conv)
qed

text \<open>
  Claim C4. For every string that is not a registered solver name, the factory fails: it
  throws \<^verbatim>\<open>std::out_of_range\<close>. When the string has no NUL character, the message of the
  exception is the whole message built in the \<^verbatim>\<open>catch\<close> block, and it contains the string
  as it was given, between double quotes at the start of the message.
\<close>

theorem system_solver_factory_unknown_name:
  "system_solver_name \<notin> set get_solvers \<Longrightarrow>
   system_solver_factory system_solver_name v_step_size v_rel_error_tolerance
       v_abs_error_tolerance v_max_steps
     = Inl (out_of_range (c_str (unknown_solver_message system_solver_name)))
   \<and> (CHR 0x00 \<notin> set system_solver_name \<longrightarrow>
        c_str (unknown_solver_message system_solver_name)
          = unknown_solver_message system_solver_name
        \<and> sublist system_solver_name (c_str (unknown_solver_message system_solver_name))
        \<and> prefix ([CHR 0x22] @ system_solver_name @ [CHR 0x22])
             (c_str (unknown_solver_message system_solver_name)))"
proof (intro conjI impI)
  assume "system_solver_name \<notin> set get_solvers"
  then show "system_solver_factory system_solver_name v_step_size v_rel_error_tolerance
       v_abs_error_tolerance v_max_steps
     = Inl (out_of_range (c_str (unknown_solver_message system_solver_name)))"
    by (simp add: system_solver_factory_def get_solvers_def system_solver_creators_def
        std_out_of_range_def)
next
  assume n: "CHR 0x00 \<notin> set system_solver_name"
  then show e: "c_str (unknown_solver_message system_solver_name)
          = unknown_solver_message system_solver_name"
    by (rule c_str_unknown_solver_message)
  show "sublist system_solver_name (c_str (unknown_solver_message system_solver_name))"
    unfolding e unfolding unknown_solver_message_def by (rule sublist_appendI)
  show "prefix ([CHR 0x22] @ system_solver_name @ [CHR 0x22])
        (c_str (unknown_solver_message system_solver_name))"
    unfolding e unfolding unknown_solver_message_def by (simp add: prefix_def)
qed

theorem system_solver_factory_unknown_name_witness:
  "''DoesNotExist'' \<notin> set get_solvers
   \<and> CHR 0x00 \<notin> set ''DoesNotExist''
   \<and> system_solver_factory ''DoesNotExist'' 1 (1 / 10000) (1 / 10000) 200
     = Inl (out_of_range (unknown_solver_message ''DoesNotExist''))
   \<and> sublist ''DoesNotExist'' (unknown_solver_message ''DoesNotExist'')
   \<and> unknown_solver_message ''DoesNotExist''
     = [CHR 0x22] @ ''DoesNotExist'' @ [CHR 0x22] @
         '' was given as a system_solver name, '' @
         ''but no system_solver with that name could be found.'' @ [CHR 0x0A] @ ''.''"
proof -
  have h: "''DoesNotExist'' \<notin> set get_solvers"
    by (simp add: get_solvers_def system_solver_creators_def)
  have n: "CHR 0x00 \<notin> set ''DoesNotExist''" by simp
  note t = system_solver_factory_unknown_name [OF h, of 1 "1 / 10000" "1 / 10000" 200]
  from t n have e: "c_str (unknown_solver_message ''DoesNotExist'')
      = unknown_solver_message ''DoesNotExist''" by blast
  from t have "system_solver_factory ''DoesNotExist'' 1 (1 / 10000) (1 / 10000) 200
     = Inl (out_of_range (c_str (unknown_solver_message ''DoesNotExist'')))" by blast
  then have f: "system_solver_factory ''DoesNotExist'' 1 (1 / 10000) (1 / 10000) 200
     = Inl (out_of_range (unknown_solver_message ''DoesNotExist''))" by (simp only: e)
  from t n have "sublist ''DoesNotExist'' (c_str (unknown_solver_message ''DoesNotExist''))"
    by blast
  then have u: "sublist ''DoesNotExist'' (unknown_solver_message ''DoesNotExist'')"
    by (simp only: e)
  have m: "unknown_solver_message ''DoesNotExist''
     = [CHR 0x22] @ ''DoesNotExist'' @ [CHR 0x22] @
         '' was given as a system_solver name, '' @
         ''but no system_solver with that name could be found.'' @ [CHR 0x0A] @ ''.''"
    by (simp add: unknown_solver_message_def)
  from h n f u m show ?thesis by (intro conjI)
qed

text \<open>
  A name with a NUL character in it: the message that \<^verbatim>\<open>what()\<close> returns stops before
  the NUL and is shorter than the name.
\<close>

theorem system_solver_factory_nul_name_counterexample:
  "''Gro'' @ [CHR 0x00] @ ''x'' \<notin> set get_solvers
   \<and> system_solver_factory (''Gro'' @ [CHR 0x00] @ ''x'') 1 (1 / 10000) (1 / 10000) 200
     = Inl (out_of_range ([CHR 0x22] @ ''Gro''))
   \<and> \<not> sublist (''Gro'' @ [CHR 0x00] @ ''x'') ([CHR 0x22] @ ''Gro'')"
proof (intro conjI)
  show "''Gro'' @ [CHR 0x00] @ ''x'' \<notin> set get_solvers"
    by (simp add: get_solvers_def system_solver_creators_def)
  show "system_solver_factory (''Gro'' @ [CHR 0x00] @ ''x'') 1 (1 / 10000) (1 / 10000) 200
     = Inl (out_of_range ([CHR 0x22] @ ''Gro''))"
    by (simp add: system_solver_factory_def system_solver_creators_def std_out_of_range_def
        c_str_def unknown_solver_message_def)
  show "\<not> sublist (''Gro'' @ [CHR 0x00] @ ''x'') ([CHR 0x22] @ ''Gro'')"
  proof
    assume "sublist (''Gro'' @ [CHR 0x00] @ ''x'') ([CHR 0x22] @ ''Gro'')"
    then have "length (''Gro'' @ [CHR 0x00] @ ''x'') \<le> length ([CHR 0x22] @ ''Gro'')"
      by (rule sublist_length_le)
    then show False by simp
  qed
qed

text \<open>
  Claim C10. The registry has exactly the six names \<^verbatim>\<open>Gro\<close>, \<^verbatim>\<open>Gro_euler\<close>,
  \<^verbatim>\<open>Gro_euler_odeint\<close>, \<^verbatim>\<open>Gro_rsnbrk\<close>, \<^verbatim>\<open>Gro_rk4\<close> and \<^verbatim>\<open>Gro_rkck54\<close>: \<^verbatim>\<open>get_solvers()\<close>
  returns each of them once and nothing else, and the factory called with any of them
  returns the solver of the class registered under that name, built from the four
  parameters, and not the unknown-name error.
\<close>

theorem system_solver_factory_registry:
  "set get_solvers =
     {''Gro'', ''Gro_euler'', ''Gro_euler_odeint'', ''Gro_rsnbrk'', ''Gro_rk4'', ''Gro_rkck54''}
   \<and> distinct get_solvers
   \<and> system_solver_factory ''Gro'' a b c d = Inr (createSystemSolver auto_solver a b c d)
   \<and> system_solver_factory ''Gro_euler'' a b c d
       = Inr (createSystemSolver homemade_euler_solver a b c d)
   \<and> system_solver_factory ''Gro_euler_odeint'' a b c d
       = Inr (createSystemSolver boost_euler_system_solver a b c d)
   \<and> system_solver_factory ''Gro_rsnbrk'' a b c d
       = Inr (createSystemSolver boost_rsnbrk_system_solver a b c d)
   \<and> system_solver_factory ''Gro_rk4'' a b c d
       = Inr (createSystemSolver boost_rk4_system_solver a b c d)
   \<and> system_solver_factory ''Gro_rkck54'' a b c d
       = Inr (createSystemSolver boost_rkck54_system_solver a b c d)"
  by (simp add: get_solvers_def system_solver_creators_def system_solver_factory_def)

section \<open>Construction and evaluation of the modules\<close>

lemma bind_error_Inr: "bind_error r f = Inr y \<longleftrightarrow> (\<exists>x. r = Inr x \<and> f x = Inr y)"
  by (cases r) (simp_all add: bind_error_def)

lemma get_input_Inr: "get_input i n = Inr r \<longleftrightarrow> n \<in> dom i \<and> r = n"
  by (cases "i n") (auto simp: get_input_def dom_def)

lemma get_ip_Inr: "get_ip i n = Inr r \<longleftrightarrow> n \<in> dom i \<and> r = n"
  by (simp add: get_ip_def get_input_Inr)

lemma get_op_Inr: "get_op out n = Inr r \<longleftrightarrow> r = n"
  by (auto simp: get_op_def)

lemmas binding_simps = bind_error_Inr get_input_Inr get_ip_Inr get_op_Inr

lemma thermal_time_linear_new_Inr:
  "thermal_time_linear_new i out = Inr m \<longleftrightarrow>
     (\<forall>n \<in> set thermal_time_linear_get_inputs. n \<in> dom i) \<and>
     m = thermal_time_linear_bindings"
  by (auto simp: thermal_time_linear_new_def thermal_time_linear_get_inputs_def
      thermal_time_linear_bindings_def binding_simps)

lemma ball_berry_new_Inr:
  "ball_berry_new i out = Inr m \<longleftrightarrow>
     (\<forall>n \<in> set ball_berry_get_inputs. n \<in> dom i) \<and> m = ball_berry_bindings"
  by (auto simp: ball_berry_new_def ball_berry_get_inputs_def ball_berry_bindings_def
      binding_simps)

lemma penman_monteith_leaf_temperature_new_Inr:
  "penman_monteith_leaf_temperature_new i out = Inr m \<longleftrightarrow>
     (\<forall>n \<in> set penman_monteith_leaf_temperature_get_inputs. n \<in> dom i) \<and>
     m = penman_monteith_leaf_temperature_bindings"
  by (auto simp: penman_monteith_leaf_temperature_new_def
      penman_monteith_leaf_temperature_get_inputs_def
      penman_monteith_leaf_temperature_bindings_def binding_simps)

lemma senescence_coefficient_logistic_new_Inr:
  "senescence_coefficient_logistic_new i out = Inr m \<longleftrightarrow>
     (\<forall>n \<in> set senescence_coefficient_logistic_get_inputs. n \<in> dom i) \<and>
     m = senescence_coefficient_logistic_bindings"
  by (auto simp: senescence_coefficient_logistic_new_def
      senescence_coefficient_logistic_get_inputs_def
      senescence_coefficient_logistic_bindings_def binding_simps)

text \<open>The \<^verbatim>\<open>update\<close> calls of an evaluation, for a module built against the same store.\<close>

lemma thermal_time_linear_do_operation_value:
  assumes "i ''temp'' = Some t" and "i ''tbase'' = Some b"
  shows "thermal_time_linear_do_operation thermal_time_linear_bindings i
           = Some [(''TTc'', fdiv_pos (if fle t b then Finite 0 else fsub t b) 24)]"
  using assms
  by (simp add: thermal_time_linear_do_operation_def thermal_time_linear_bindings_def)

lemma thermal_time_linear_calls:
  assumes "thermal_time_linear_new i out = Inr m"
  shows "\<exists>v. thermal_time_linear_do_operation m i = Some [(''TTc'', v)]"
proof -
  from assms obtain a b where "i ''temp'' = Some a" and "i ''tbase'' = Some b"
    and "m = thermal_time_linear_bindings"
    by (auto simp: thermal_time_linear_new_Inr thermal_time_linear_get_inputs_def)
  then show ?thesis
    using thermal_time_linear_do_operation_value [of i a b] by simp
qed

lemma ball_berry_calls:
  assumes "ball_berry_new i out = Inr m"
  shows "\<exists>v. ball_berry_do_operation gs m i = Some [(''leaf_stomatal_conductance'', v)]"
  using assms
  by (auto simp: ball_berry_new_Inr ball_berry_get_inputs_def ball_berry_do_operation_def
      ball_berry_bindings_def)

lemma penman_monteith_leaf_temperature_calls:
  assumes "penman_monteith_leaf_temperature_new i out = Inr m"
  shows "\<exists>v. penman_monteith_leaf_temperature_do_operation m i = Some [(''leaf_temperature'', v)]"
  using assms
  by (auto simp: penman_monteith_leaf_temperature_new_Inr
      penman_monteith_leaf_temperature_get_inputs_def
      penman_monteith_leaf_temperature_do_operation_def
      penman_monteith_leaf_temperature_bindings_def Let_def)

lemma senescence_coefficient_logistic_calls:
  assumes "senescence_coefficient_logistic_new i out = Inr m"
  shows "\<exists>v1 v2 v3 v4. senescence_coefficient_logistic_do_operation m i =
           Some [(''kSeneStem'', v1), (''kSeneLeaf'', v2), (''kSeneRoot'', v3),
                 (''kSeneRhizome'', v4)]"
  using assms
  by (auto simp: senescence_coefficient_logistic_new_Inr
      senescence_coefficient_logistic_get_inputs_def
      senescence_coefficient_logistic_do_operation_def
      senescence_coefficient_logistic_bindings_def Let_def)

text \<open>The example stores have every input, so all four constructions succeed on them.\<close>

lemma example_constructions:
  "thermal_time_linear_new example_double_quantities out' = Inr thermal_time_linear_bindings"
  "ball_berry_new example_quantities out = Inr ball_berry_bindings"
  "penman_monteith_leaf_temperature_new example_quantities out
     = Inr penman_monteith_leaf_temperature_bindings"
  "senescence_coefficient_logistic_new example_quantities out
     = Inr senescence_coefficient_logistic_bindings"
  by (simp_all add: thermal_time_linear_new_Inr ball_berry_new_Inr
      penman_monteith_leaf_temperature_new_Inr senescence_coefficient_logistic_new_Inr
      thermal_time_linear_get_inputs_def ball_berry_get_inputs_def
      penman_monteith_leaf_temperature_get_inputs_def
      senescence_coefficient_logistic_get_inputs_def example_quantities_def
      example_double_quantities_def dom_map_of_conv_image_fst)

lemma example_constructions_extended:
  "ball_berry_new (example_quantities(''unrelated'' \<mapsto> x)) out = Inr ball_berry_bindings"
  "penman_monteith_leaf_temperature_new (example_quantities(''unrelated'' \<mapsto> x)) out
     = Inr penman_monteith_leaf_temperature_bindings"
  "senescence_coefficient_logistic_new (example_quantities(''unrelated'' \<mapsto> x)) out
     = Inr senescence_coefficient_logistic_bindings"
  by (simp_all add: thermal_time_linear_new_Inr ball_berry_new_Inr
      penman_monteith_leaf_temperature_new_Inr senescence_coefficient_logistic_new_Inr
      thermal_time_linear_get_inputs_def ball_berry_get_inputs_def
      penman_monteith_leaf_temperature_get_inputs_def
      senescence_coefficient_logistic_get_inputs_def example_quantities_def
      dom_map_of_conv_image_fst)

section \<open>Rounding to double precision\<close>

lemma binade_search_small:
  "ax < 2 powi (- 1021) \<Longrightarrow> binade_search ax n = - 1022"
proof (induction n)
  case 0
  then show ?case by simp
next
  case (Suc n)
  have "(2::real) powi (- 1021) \<le> 2 powi (int (Suc n) - 1022)"
    by (rule power_int_increasing) simp_all
  with Suc show ?case by simp
qed

lemma binade_search_eq:
  assumes "1 \<le> k" and "k \<le> n"
    and "2 powi (int k - 1022) \<le> ax" and "ax < 2 powi (int k - 1021)"
  shows "binade_search ax n = int k - 1022"
  using assms(2)
proof (induction n)
  case 0
  with assms(1) show ?case by simp
next
  case (Suc n)
  show ?case
  proof (cases "k = Suc n")
    case True
    with assms(3) show ?thesis by simp
  next
    case False
    with Suc.prems have kn: "k \<le> n" by simp
    have "(2::real) powi (int k - 1021) \<le> 2 powi (int (Suc n) - 1022)"
      by (rule power_int_increasing) (use kn in simp_all)
    with assms(4) have "\<not> 2 powi (int (Suc n) - 1022) \<le> ax" by simp
    with Suc.IH [OF kn] show ?thesis by simp
  qed
qed

lemma binade_subnormal: "ax < 2 powi (- 1021) \<Longrightarrow> binade ax = - 1022"
  by (simp add: binade_def binade_search_small)

lemma binade_normal:
  assumes "- 1021 \<le> e" and "e \<le> 1023" and "2 powi e \<le> ax" and "ax < 2 powi (e + 1)"
  shows "binade ax = e"
proof -
  define k where "k = nat (e + 1022)"
  with assms(1,2) have k: "1 \<le> k" "k \<le> 2045" "int k - 1022 = e" "int k - 1021 = e + 1"
    by simp_all
  from binade_search_eq [of k 2045 ax] k assms(3,4) show ?thesis
    by (simp add: binade_def)
qed

lemma binade_top: "2 powi 1023 \<le> ax \<Longrightarrow> binade ax = 1023"
proof -
  assume a: "2 powi 1023 \<le> ax"
  have "binade_search ax (Suc 2044) = 1023"
    unfolding binade_search.simps using a by simp
  moreover have "Suc 2044 = 2045" by simp
  ultimately show ?thesis by (simp only: binade_def)
qed

lemma round_half_even_nonneg: "0 \<le> y \<Longrightarrow> 0 \<le> round_half_even y"
  by (auto simp: round_half_even_def Let_def)

lemma round_half_even_of_int: "round_half_even (of_int m) = m"
  by (simp add: round_half_even_def)

lemma round_double_nonneg:
  assumes "0 \<le> x"
  shows "round_double x = PInf \<or> (\<exists>r\<ge>0. round_double x = Finite r)"
proof -
  have q: "0 < (2::real) powi (binade \<bar>x\<bar> - 52)" by simp
  with assms have "0 \<le> \<bar>x\<bar> / 2 powi (binade \<bar>x\<bar> - 52)" by simp
  then have "0 \<le> round_half_even (\<bar>x\<bar> / 2 powi (binade \<bar>x\<bar> - 52))"
    by (rule round_half_even_nonneg)
  with q have "0 \<le> of_int (round_half_even (\<bar>x\<bar> / 2 powi (binade \<bar>x\<bar> - 52)))
      * (2::real) powi (binade \<bar>x\<bar> - 52)" by simp
  with assms show ?thesis
    by (auto simp: round_double_def Let_def)
qed

lemma round_double_0: "round_double 0 = Finite 0"
  by (simp add: round_double_def round_half_even_def)

lemma round_double_underflow:
  assumes "0 \<le> x" and "x < 2 powi (- 1075)"
  shows "round_double x = Finite 0"
proof -
  have h: "(2::real) powi (- 1075) < 2 powi (- 1021)"
    by (rule power_int_strict_increasing) simp_all
  from assms have a: "\<bar>x\<bar> = x" by simp
  from assms h have b: "binade \<bar>x\<bar> = - 1022"
    by (intro binade_subnormal) simp
  define q :: real where "q = 2 powi (- 1074)"
  define y where "y = x / q"
  have q: "0 < q" unfolding q_def by (rule zero_less_power_int) simp
  have "q = 2 powi (- 1075) * 2"
    unfolding q_def using power_int_add_1 [of "2::real" "- 1075"] by simp
  with assms(2) have "x * 2 < q" by simp
  with q have y2: "y < 1 / 2" unfolding y_def by (simp add: field_simps)
  from assms(1) q have y1: "0 \<le> y" unfolding y_def by simp
  from y1 y2 have "\<lfloor>y\<rfloor> = 0" by (simp add: floor_eq_iff)
  with y2 have "round_half_even y = 0" by (simp add: round_half_even_def Let_def)
  moreover have "2 powi (binade \<bar>x\<bar> - 52) = q" by (simp only: b q_def) simp
  ultimately show ?thesis
    using assms(1) unfolding round_double_def Let_def a y_def by simp
qed

lemma round_half_even_ge_floor: "\<lfloor>y\<rfloor> \<le> round_half_even y"
  by (simp add: round_half_even_def Let_def)

lemma round_double_overflow:
  assumes "2 powi 1024 \<le> x"
  shows "round_double x = PInf"
proof -
  have p: "(0::real) < 2 powi 1024" by (rule zero_less_power_int) simp
  with assms have x: "0 < x" by linarith
  then have a: "\<bar>x\<bar> = x" by simp
  have "(2::real) powi 1023 \<le> 2 powi 1024"
    by (rule power_int_increasing) simp_all
  with assms have b: "binade \<bar>x\<bar> = 1023"
    unfolding a by (intro binade_top) linarith
  define q :: real where "q = 2 powi 971"
  have q: "0 < q" unfolding q_def by (rule zero_less_power_int) simp
  have s: "(2::real) powi 1024 = of_int (2 ^ 53) * q"
    unfolding q_def using power_int_add [of "2::real" 53 971] by simp
  with assms q have "of_int (2 ^ 53) \<le> x / q"
    by (simp add: field_simps)
  then have "2 ^ 53 \<le> \<lfloor>x / q\<rfloor>" by (simp add: le_floor_iff)
  with round_half_even_ge_floor [of "x / q"] have "2 ^ 53 \<le> round_half_even (x / q)"
    by linarith
  then have "(of_int (2 ^ 53) :: real) \<le> of_int (round_half_even (x / q))"
    by (simp only: of_int_le_iff)
  with q have "of_int (2 ^ 53) * q \<le> of_int (round_half_even (x / q)) * q"
    by (simp only: mult_le_cancel_right_pos)
  with s have "2 powi 1024 \<le> of_int (round_half_even (x / q)) * q" by simp
  moreover have "2 powi (binade \<bar>x\<bar> - 52) = q" by (simp only: b q_def) simp
  ultimately show ?thesis
    using x by (simp add: round_double_def a Let_def del: power_int_numeral)
qed

lemma round_double_exact:
  assumes "binade \<bar>x\<bar> = e" and "\<bar>x\<bar> = of_int m * 2 powi (e - 52)"
    and "x \<noteq> 0" and "\<bar>x\<bar> < 2 powi 1024"
  shows "round_double x = Finite x"
proof -
  have q: "(2::real) powi (e - 52) \<noteq> 0" by simp
  from assms(2) q have "\<bar>x\<bar> / 2 powi (e - 52) = of_int m" by simp
  then have r: "round_half_even (\<bar>x\<bar> / 2 powi (binade \<bar>x\<bar> - 52)) = m"
    by (simp only: assms(1) round_half_even_of_int)
  have v: "of_int m * 2 powi (binade \<bar>x\<bar> - 52) = \<bar>x\<bar>"
    by (simp only: assms(1) assms(2) [symmetric])
  from assms(3,4) show ?thesis
    unfolding round_double_def Let_def r v by auto
qed

lemma fsub_Finite:
  "a \<noteq> b \<Longrightarrow> fsub (Finite a) (Finite b) = round_double (a - b)"
  by (simp add: Let_def)

text \<open>The differences and quotients used below.\<close>

lemma fsub_smallest_subnormal:
  "fsub (Finite (2 powi (- 1074))) (Finite 0) = Finite (2 powi (- 1074))"
proof -
  define x :: real where "x = 2 powi (- 1074)"
  have p: "0 < x" unfolding x_def by (rule zero_less_power_int) simp
  have "x < 2 powi (- 1021)"
    unfolding x_def by (rule power_int_strict_increasing) simp_all
  with p have b: "binade \<bar>x\<bar> = - 1022" by (intro binade_subnormal) simp
  have "x < 2 powi 1024"
    unfolding x_def by (rule power_int_strict_increasing) simp_all
  with p have "round_double x = Finite x"
    by (intro round_double_exact [OF b, of 1]) (simp_all add: x_def)
  with p have "fsub (Finite x) (Finite 0) = Finite x"
    by (simp add: fsub_Finite)
  then show ?thesis by (simp only: x_def)
qed

lemma fdiv_smallest_subnormal: "fdiv_pos (Finite (2 powi (- 1074))) 24 = Finite 0"
proof -
  define x :: real where "x = 2 powi (- 1075)"
  have p: "0 < x" unfolding x_def by (rule zero_less_power_int) simp
  have t: "(2::real) powi (- 1074) = x * 2"
    unfolding x_def using power_int_add_1 [of "2::real" "- 1075"] by simp
  from p have "x * 2 / 24 < x" by simp
  then have l: "x * 2 / 24 < 2 powi (- 1075)" unfolding x_def .
  from p have "0 \<le> x * 2 / 24" by simp
  then have "round_double (x * 2 / 24) = Finite 0"
    using l by (rule round_double_underflow)
  then show ?thesis by (simp only: fdiv_pos.simps t)
qed

lemma fsub_overflow: "fsub (Finite (2 powi 1023)) (Finite (- (2 powi 1023))) = PInf"
proof -
  define x :: real where "x = 2 powi 1023"
  have p: "0 < x" unfolding x_def by (rule zero_less_power_int) simp
  have t: "(2::real) powi 1024 = x * 2"
    unfolding x_def using power_int_add_1 [of "2::real" 1023] by simp
  have "2 powi 1024 \<le> x - - x" unfolding t by simp
  then have "round_double (x - - x) = PInf"
    by (rule round_double_overflow)
  with p have "fsub (Finite x) (Finite (- x)) = PInf"
    by (simp add: fsub_Finite)
  then show ?thesis by (simp only: x_def)
qed

lemma fsub_15_10: "fsub (Finite 15) (Finite 10) = Finite 5"
proof -
  have b: "binade \<bar>5\<bar> = 2"
    by (rule binade_normal) simp_all
  have "round_double 5 = Finite 5"
    by (rule round_double_exact [OF b, of "5 * 2 ^ 50"]) (simp_all add: power_int_minus)
  then show ?thesis by (simp add: fsub_Finite)
qed

lemma fdiv_5_24: "fdiv_pos (Finite 5) 24 = Finite (7505999378950827 / 2 ^ 55)"
proof -
  have b: "binade (5 / 24) = - 3"
    by (rule binade_normal) (simp_all add: power_int_minus)
  have f: "\<lfloor>(5::real) / 24 / 2 powi (- 55)\<rfloor> = 7505999378950826"
    by (simp add: power_int_minus floor_eq_iff)
  have "round_half_even (5 / 24 / 2 powi (- 55)) = 7505999378950827"
    unfolding round_half_even_def Let_def f by (simp add: power_int_minus)
  then show ?thesis
    by (simp add: round_double_def b Let_def power_int_minus)
qed

text \<open>The rate is never negative and never a negative zero.\<close>

lemma fdiv_pos_nonneg:
  assumes "0 < d" and "a = PInf \<or> (\<exists>r\<ge>0. a = Finite r)"
  shows "fdiv_pos a d = PInf \<or> (\<exists>r\<ge>0. fdiv_pos a d = Finite r)"
  using assms round_double_nonneg [of "finite_value a / d"] by auto

lemma fsub_greater:
  assumes "\<not> fle t b" and "t \<noteq> NaN" and "b \<noteq> NaN"
  shows "fsub t b = PInf \<or> (\<exists>r\<ge>0. fsub t b = Finite r)"
proof (cases t)
  case (Finite x)
  with assms show ?thesis
    by (cases b) (use round_double_nonneg [of "x - finite_value b"] in \<open>auto simp: Let_def\<close>)
next
  case NegZero
  with assms show ?thesis
    by (cases b) (use round_double_nonneg [of "- finite_value b"] in \<open>auto simp: Let_def\<close>)
next
  case PInf
  with assms show ?thesis by (cases b) auto
next
  case NInf
  with assms show ?thesis by (cases b) auto
next
  case NaN
  with assms show ?thesis by simp
qed

lemma thermal_rate_nonneg:
  assumes "t \<noteq> NaN" and "b \<noteq> NaN"
  shows "fdiv_pos (if fle t b then Finite 0 else fsub t b) 24 = PInf
       \<or> (\<exists>r\<ge>0. fdiv_pos (if fle t b then Finite 0 else fsub t b) 24 = Finite r)"
proof (cases "fle t b")
  case True
  then show ?thesis by (simp add: round_double_0)
next
  case False
  from fsub_greater [OF False assms] have "fdiv_pos (fsub t b) 24 = PInf
      \<or> (\<exists>r\<ge>0. fdiv_pos (fsub t b) 24 = Finite r)"
    by (intro fdiv_pos_nonneg) simp_all
  with False show ?thesis by simp
qed

section \<open>The rate of thermal time accumulation\<close>

text \<open>
  Claim C5. For every input store with \<^verbatim>\<open>temp\<close> = t and \<^verbatim>\<open>tbase\<close> = b, the module
  \<^verbatim>\<open>thermal_time_linear\<close> can be constructed, and its evaluation makes exactly one
  \<^verbatim>\<open>update\<close> call, on the slot of \<^verbatim>\<open>TTc\<close>. The value is the positive zero when
  \<^verbatim>\<open>temp <= tbase\<close>, and otherwise the double-precision quotient by 24 of the
  double-precision difference \<^verbatim>\<open>temp - tbase\<close>. When neither input is a NaN the value is a
  non-negative finite number or the positive infinity, never negative.
\<close>

theorem thermal_time_linear_rate:
  assumes "input_parameters ''temp'' = Some t" and "input_parameters ''tbase'' = Some b"
  shows "\<exists>m v. thermal_time_linear_new input_parameters output_parameters = Inr m \<and>
             thermal_time_linear_do_operation m input_parameters = Some [(''TTc'', v)] \<and>
             v = (if fle t b then Finite 0 else fdiv_pos (fsub t b) 24) \<and>
             (t \<noteq> NaN \<and> b \<noteq> NaN \<longrightarrow> v = PInf \<or> (\<exists>r\<ge>0. v = Finite r))"
proof -
  from assms have "thermal_time_linear_new input_parameters output_parameters
      = Inr thermal_time_linear_bindings"
    by (auto simp: thermal_time_linear_new_Inr thermal_time_linear_get_inputs_def)
  moreover have "fdiv_pos (if fle t b then Finite 0 else fsub t b) 24
      = (if fle t b then Finite 0 else fdiv_pos (fsub t b) 24)"
    by (simp add: round_double_0)
  ultimately show ?thesis
    using thermal_time_linear_do_operation_value [OF assms] thermal_rate_nonneg [of t b]
    by auto
qed

theorem thermal_time_linear_rate_witness:
  "thermal_time_linear_new [''temp'' \<mapsto> Finite 15, ''tbase'' \<mapsto> Finite 10] Map.empty
     = Inr thermal_time_linear_bindings
   \<and> thermal_time_linear_do_operation thermal_time_linear_bindings
        [''temp'' \<mapsto> Finite 15, ''tbase'' \<mapsto> Finite 10]
       = Some [(''TTc'', Finite (7505999378950827 / 2 ^ 55))]
   \<and> \<bar>7505999378950827 / 2 ^ 55 - 5 / 24\<bar> < (1 / 2 ^ 55 :: real)
   \<and> thermal_time_linear_do_operation thermal_time_linear_bindings
        [''temp'' \<mapsto> Finite 5, ''tbase'' \<mapsto> Finite 10] = Some [(''TTc'', Finite 0)]"
proof -
  from thermal_time_linear_rate [of "[''temp'' \<mapsto> Finite 15, ''tbase'' \<mapsto> Finite 10]"
      "Finite 15" "Finite 10" Map.empty]
  have a: "thermal_time_linear_new [''temp'' \<mapsto> Finite 15, ''tbase'' \<mapsto> Finite 10] Map.empty
     = Inr thermal_time_linear_bindings"
    and b: "thermal_time_linear_do_operation thermal_time_linear_bindings
        [''temp'' \<mapsto> Finite 15, ''tbase'' \<mapsto> Finite 10]
       = Some [(''TTc'', fdiv_pos (fsub (Finite 15) (Finite 10)) 24)]"
    by (auto simp: thermal_time_linear_new_Inr)
  from thermal_time_linear_rate [of "[''temp'' \<mapsto> Finite 5, ''tbase'' \<mapsto> Finite 10]"
      "Finite 5" "Finite 10" Map.empty]
  have c: "thermal_time_linear_do_operation thermal_time_linear_bindings
        [''temp'' \<mapsto> Finite 5, ''tbase'' \<mapsto> Finite 10] = Some [(''TTc'', Finite 0)]"
    by (auto simp: thermal_time_linear_new_Inr)
  have d: "\<bar>7505999378950827 / 2 ^ 55 - 5 / 24\<bar> < (1 / 2 ^ 55 :: real)" by simp
  from b have b': "thermal_time_linear_do_operation thermal_time_linear_bindings
        [''temp'' \<mapsto> Finite 15, ''tbase'' \<mapsto> Finite 10]
       = Some [(''TTc'', Finite (7505999378950827 / 2 ^ 55))]"
    by (simp only: fsub_15_10 fdiv_5_24)
  from a b' c d show ?thesis by (intro conjI)
qed

text \<open>
  The smallest positive double against zero: \<^verbatim>\<open>temp > tbase\<close>, and the value written is
  exactly zero, where the real number \<open>(temp - tbase) / 24\<close> is not. The largest binade
  against its negative: the value written is the positive infinity.
\<close>

theorem thermal_time_linear_underflow_counterexample:
  "\<not> fle (Finite (2 powi (- 1074))) (Finite 0)
   \<and> thermal_time_linear_do_operation thermal_time_linear_bindings
        [''temp'' \<mapsto> Finite (2 powi (- 1074)), ''tbase'' \<mapsto> Finite 0]
       = Some [(''TTc'', Finite 0)]
   \<and> ((2::real) powi (- 1074) - 0) / 24 \<noteq> 0
   \<and> thermal_time_linear_do_operation thermal_time_linear_bindings
        [''temp'' \<mapsto> Finite (2 powi 1023), ''tbase'' \<mapsto> Finite (- (2 powi 1023))]
       = Some [(''TTc'', PInf)]"
proof (intro conjI)
  have p: "(0::real) < 2 powi (- 1074)" by (rule zero_less_power_int) simp
  then have "\<not> 2 powi (- 1074) \<le> (0::real)" by (simp only: not_le)
  then show n: "\<not> fle (Finite (2 powi (- 1074))) (Finite 0)"
    by (simp only: fle.simps finite_value.simps not_False_eq_True)
  have "thermal_time_linear_do_operation thermal_time_linear_bindings
        [''temp'' \<mapsto> Finite (2 powi (- 1074)), ''tbase'' \<mapsto> Finite 0]
       = Some [(''TTc'', fdiv_pos (if fle (Finite (2 powi (- 1074))) (Finite 0) then Finite 0
            else fsub (Finite (2 powi (- 1074))) (Finite 0)) 24)]"
    by (rule thermal_time_linear_do_operation_value) simp_all
  then show "thermal_time_linear_do_operation thermal_time_linear_bindings
        [''temp'' \<mapsto> Finite (2 powi (- 1074)), ''tbase'' \<mapsto> Finite 0]
       = Some [(''TTc'', Finite 0)]"
    by (simp only: n if_False fsub_smallest_subnormal fdiv_smallest_subnormal)
  show "((2::real) powi (- 1074) - 0) / 24 \<noteq> 0" by simp
  have q: "(0::real) < 2 powi 1023" by (rule zero_less_power_int) simp
  then have "\<not> 2 powi 1023 \<le> - ((2::real) powi 1023)" by linarith
  then have m: "\<not> fle (Finite (2 powi 1023)) (Finite (- (2 powi 1023)))"
    by (simp only: fle.simps finite_value.simps not_False_eq_True)
  have "thermal_time_linear_do_operation thermal_time_linear_bindings
        [''temp'' \<mapsto> Finite (2 powi 1023), ''tbase'' \<mapsto> Finite (- (2 powi 1023))]
       = Some [(''TTc'', fdiv_pos (if fle (Finite (2 powi 1023)) (Finite (- (2 powi 1023)))
            then Finite 0 else fsub (Finite (2 powi 1023)) (Finite (- (2 powi 1023)))) 24)]"
    by (rule thermal_time_linear_do_operation_value) simp_all
  then show "thermal_time_linear_do_operation thermal_time_linear_bindings
        [''temp'' \<mapsto> Finite (2 powi 1023), ''tbase'' \<mapsto> Finite (- (2 powi 1023))]
       = Some [(''TTc'', PInf)]"
    by (simp only: m if_False fsub_overflow fdiv_pos.simps)
qed

section \<open>Declared and actual interface\<close>

text \<open>
  Claim C6. For each of the four modules, when construction succeeds, the names of the
  input-store entries to which the module holds references are exactly the names that
  \<^verbatim>\<open>get_inputs()\<close> returns, the evaluation returns, and the names of the slots on which it
  calls \<^verbatim>\<open>update\<close> are exactly the names that \<^verbatim>\<open>get_outputs()\<close> returns.
\<close>

theorem declared_interface_matches:
  "(thermal_time_linear_new inp_t out_t = Inr m_t \<longrightarrow>
      set (thermal_time_linear_bound_inputs m_t) = set thermal_time_linear_get_inputs \<and>
      (\<exists>calls. thermal_time_linear_do_operation m_t inp_t = Some calls \<and>
               set (map fst calls) = set thermal_time_linear_get_outputs))
   \<and> (ball_berry_new inp_b out_b = Inr m_b \<longrightarrow>
      set (ball_berry_bound_inputs m_b) = set ball_berry_get_inputs \<and>
      (\<exists>calls. ball_berry_do_operation ball_berry_gs m_b inp_b = Some calls \<and>
               set (map fst calls) = set ball_berry_get_outputs))
   \<and> (penman_monteith_leaf_temperature_new inp_p out_p = Inr m_p \<longrightarrow>
      set (penman_monteith_leaf_temperature_bound_inputs m_p)
        = set penman_monteith_leaf_temperature_get_inputs \<and>
      (\<exists>calls. penman_monteith_leaf_temperature_do_operation m_p inp_p = Some calls \<and>
               set (map fst calls) = set penman_monteith_leaf_temperature_get_outputs))
   \<and> (senescence_coefficient_logistic_new inp_s out_s = Inr m_s \<longrightarrow>
      set (senescence_coefficient_logistic_bound_inputs m_s)
        = set senescence_coefficient_logistic_get_inputs \<and>
      (\<exists>calls. senescence_coefficient_logistic_do_operation m_s inp_s = Some calls \<and>
               set (map fst calls) = set senescence_coefficient_logistic_get_outputs))"
proof (intro conjI impI)
  assume a: "thermal_time_linear_new inp_t out_t = Inr m_t"
  then show "set (thermal_time_linear_bound_inputs m_t) = set thermal_time_linear_get_inputs"
    by (simp add: thermal_time_linear_new_Inr thermal_time_linear_bound_inputs_def
        thermal_time_linear_get_inputs_def thermal_time_linear_bindings_def)
  from thermal_time_linear_calls [OF a]
  show "\<exists>calls. thermal_time_linear_do_operation m_t inp_t = Some calls \<and>
               set (map fst calls) = set thermal_time_linear_get_outputs"
    by (auto simp: thermal_time_linear_get_outputs_def)
next
  assume a: "ball_berry_new inp_b out_b = Inr m_b"
  then show "set (ball_berry_bound_inputs m_b) = set ball_berry_get_inputs"
    by (simp add: ball_berry_new_Inr ball_berry_bound_inputs_def ball_berry_get_inputs_def
        ball_berry_bindings_def)
  from ball_berry_calls [OF a, of ball_berry_gs]
  show "\<exists>calls. ball_berry_do_operation ball_berry_gs m_b inp_b = Some calls \<and>
               set (map fst calls) = set ball_berry_get_outputs"
    by (auto simp: ball_berry_get_outputs_def)
next
  assume a: "penman_monteith_leaf_temperature_new inp_p out_p = Inr m_p"
  then show "set (penman_monteith_leaf_temperature_bound_inputs m_p)
        = set penman_monteith_leaf_temperature_get_inputs"
    by (simp add: penman_monteith_leaf_temperature_new_Inr
        penman_monteith_leaf_temperature_bound_inputs_def
        penman_monteith_leaf_temperature_get_inputs_def
        penman_monteith_leaf_temperature_bindings_def)
  from penman_monteith_leaf_temperature_calls [OF a]
  show "\<exists>calls. penman_monteith_leaf_temperature_do_operation m_p inp_p = Some calls \<and>
               set (map fst calls) = set penman_monteith_leaf_temperature_get_outputs"
    by (auto simp: penman_monteith_leaf_temperature_get_outputs_def)
next
  assume a: "senescence_coefficient_logistic_new inp_s out_s = Inr m_s"
  then show "set (senescence_coefficient_logistic_bound_inputs m_s)
        = set senescence_coefficient_logistic_get_inputs"
    by (simp add: senescence_coefficient_logistic_new_Inr
        senescence_coefficient_logistic_bound_inputs_def
        senescence_coefficient_logistic_get_inputs_def
        senescence_coefficient_logistic_bindings_def)
  from senescence_coefficient_logistic_calls [OF a]
  show "\<exists>calls. senescence_coefficient_logistic_do_operation m_s inp_s = Some calls \<and>
               set (map fst calls) = set senescence_coefficient_logistic_get_outputs"
    by (auto simp: senescence_coefficient_logistic_get_outputs_def)
qed

theorem declared_interface_matches_witness:
  "thermal_time_linear_new example_double_quantities Map.empty
     = Inr thermal_time_linear_bindings
   \<and> ball_berry_new example_quantities Map.empty = Inr ball_berry_bindings
   \<and> penman_monteith_leaf_temperature_new example_quantities Map.empty
       = Inr penman_monteith_leaf_temperature_bindings
   \<and> senescence_coefficient_logistic_new example_quantities Map.empty
       = Inr senescence_coefficient_logistic_bindings
   \<and> set (thermal_time_linear_bound_inputs thermal_time_linear_bindings)
       = {''temp'', ''tbase''}
   \<and> (\<exists>calls. thermal_time_linear_do_operation thermal_time_linear_bindings
                 example_double_quantities = Some calls \<and> set (map fst calls) = {''TTc''})
   \<and> (\<exists>calls. ball_berry_do_operation example_ball_berry_gs ball_berry_bindings
                 example_quantities = Some calls \<and>
               set (map fst calls) = {''leaf_stomatal_conductance''})
   \<and> (\<exists>calls. penman_monteith_leaf_temperature_do_operation
                 penman_monteith_leaf_temperature_bindings example_quantities = Some calls \<and>
               set (map fst calls) = {''leaf_temperature''})
   \<and> (\<exists>calls. senescence_coefficient_logistic_do_operation
                 senescence_coefficient_logistic_bindings example_quantities = Some calls \<and>
               set (map fst calls) = {''kSeneStem'', ''kSeneLeaf'', ''kSeneRoot'', ''kSeneRhizome''})"
  using declared_interface_matches [where inp_t = example_double_quantities
      and out_t = Map.empty
      and m_t = thermal_time_linear_bindings
      and inp_b = example_quantities and out_b = Map.empty and m_b = ball_berry_bindings
      and ball_berry_gs = example_ball_berry_gs
      and inp_p = example_quantities and out_p = Map.empty
      and m_p = penman_monteith_leaf_temperature_bindings
      and inp_s = example_quantities and out_s = Map.empty
      and m_s = senescence_coefficient_logistic_bindings]
  by (simp add: example_constructions thermal_time_linear_get_inputs_def
      thermal_time_linear_get_outputs_def ball_berry_get_outputs_def
      penman_monteith_leaf_temperature_get_outputs_def
      senescence_coefficient_logistic_get_outputs_def)

section \<open>Writes of an evaluation\<close>

lemma apply_updates_other: "n \<notin> fst ` set calls \<Longrightarrow> apply_updates s calls n = s n"
  unfolding apply_updates_def
  by (induction calls arbitrary: s) (auto simp: update_def)

lemma apply_updates_frame:
  assumes "fst ` set calls \<subseteq> set outs"
  shows "\<forall>n. n \<notin> set outs \<longrightarrow> apply_updates s calls n = s n"
  using assms by (auto intro!: apply_updates_other)

lemma apply_updates_agree:
  "n \<in> fst ` set calls \<Longrightarrow> apply_updates s calls n = apply_updates s' calls n"
  unfolding apply_updates_def
proof (induction calls arbitrary: s s' rule: rev_induct)
  case Nil
  then show ?case by simp
next
  case (snoc c calls)
  obtain p v where c: "c = (p, v)" by (cases c)
  show ?case
  proof (cases "n = p")
    case True
    then show ?thesis by (simp add: c update_def)
  next
    case False
    with snoc.prems c have "n \<in> fst ` set calls" by auto
    from snoc.IH [OF this] False show ?thesis by (simp add: c update_def)
  qed
qed

text \<open>
  Claim C7. For each of the four modules, when construction succeeds, the evaluation
  returns, and performing its \<^verbatim>\<open>update\<close> calls on any store leaves every entry whose name
  is not among \<^verbatim>\<open>get_outputs()\<close> as it was: \<^verbatim>\<open>ball_berry\<close> writes only
  \<^verbatim>\<open>leaf_stomatal_conductance\<close> and \<^verbatim>\<open>penman_monteith_leaf_temperature\<close> writes only
  \<^verbatim>\<open>leaf_temperature\<close>. The input store is not written at all unless it is the store
  the calls are performed on.
\<close>

theorem evaluation_frame:
  "(ball_berry_new inp_b out_b = Inr m_b \<longrightarrow>
      (\<exists>calls. ball_berry_do_operation ball_berry_gs m_b inp_b = Some calls \<and>
         (\<forall>n. n \<notin> set ball_berry_get_outputs \<longrightarrow> apply_updates s_b calls n = s_b n)))
   \<and> (penman_monteith_leaf_temperature_new inp_p out_p = Inr m_p \<longrightarrow>
      (\<exists>calls. penman_monteith_leaf_temperature_do_operation m_p inp_p = Some calls \<and>
         (\<forall>n. n \<notin> set penman_monteith_leaf_temperature_get_outputs \<longrightarrow>
              apply_updates s_p calls n = s_p n)))
   \<and> (thermal_time_linear_new inp_t out_t = Inr m_t \<longrightarrow>
      (\<exists>calls. thermal_time_linear_do_operation m_t inp_t = Some calls \<and>
         (\<forall>n. n \<notin> set thermal_time_linear_get_outputs \<longrightarrow> apply_updates s_t calls n = s_t n)))
   \<and> (senescence_coefficient_logistic_new inp_s out_s = Inr m_s \<longrightarrow>
      (\<exists>calls. senescence_coefficient_logistic_do_operation m_s inp_s = Some calls \<and>
         (\<forall>n. n \<notin> set senescence_coefficient_logistic_get_outputs \<longrightarrow>
              apply_updates s_s calls n = s_s n)))"
proof (intro conjI impI)
  assume "ball_berry_new inp_b out_b = Inr m_b"
  from ball_berry_calls [OF this, of ball_berry_gs]
  obtain v where c: "ball_berry_do_operation ball_berry_gs m_b inp_b
      = Some [(''leaf_stomatal_conductance'', v)]" by blast
  have "\<forall>n. n \<notin> set ball_berry_get_outputs \<longrightarrow>
      apply_updates s_b [(''leaf_stomatal_conductance'', v)] n = s_b n"
    by (rule apply_updates_frame) (simp add: ball_berry_get_outputs_def)
  with c show "\<exists>calls. ball_berry_do_operation ball_berry_gs m_b inp_b = Some calls \<and>
         (\<forall>n. n \<notin> set ball_berry_get_outputs \<longrightarrow> apply_updates s_b calls n = s_b n)"
    by blast
next
  assume "penman_monteith_leaf_temperature_new inp_p out_p = Inr m_p"
  from penman_monteith_leaf_temperature_calls [OF this]
  obtain v where c: "penman_monteith_leaf_temperature_do_operation m_p inp_p
      = Some [(''leaf_temperature'', v)]" by blast
  have "\<forall>n. n \<notin> set penman_monteith_leaf_temperature_get_outputs \<longrightarrow>
      apply_updates s_p [(''leaf_temperature'', v)] n = s_p n"
    by (rule apply_updates_frame) (simp add: penman_monteith_leaf_temperature_get_outputs_def)
  with c show "\<exists>calls. penman_monteith_leaf_temperature_do_operation m_p inp_p = Some calls \<and>
         (\<forall>n. n \<notin> set penman_monteith_leaf_temperature_get_outputs \<longrightarrow>
              apply_updates s_p calls n = s_p n)"
    by blast
next
  assume "thermal_time_linear_new inp_t out_t = Inr m_t"
  from thermal_time_linear_calls [OF this]
  obtain v where c: "thermal_time_linear_do_operation m_t inp_t = Some [(''TTc'', v)]"
    by blast
  have "\<forall>n. n \<notin> set thermal_time_linear_get_outputs \<longrightarrow>
      apply_updates s_t [(''TTc'', v)] n = s_t n"
    by (rule apply_updates_frame) (simp add: thermal_time_linear_get_outputs_def)
  with c show "\<exists>calls. thermal_time_linear_do_operation m_t inp_t = Some calls \<and>
         (\<forall>n. n \<notin> set thermal_time_linear_get_outputs \<longrightarrow> apply_updates s_t calls n = s_t n)"
    by blast
next
  assume "senescence_coefficient_logistic_new inp_s out_s = Inr m_s"
  from senescence_coefficient_logistic_calls [OF this]
  obtain v1 v2 v3 v4 where c: "senescence_coefficient_logistic_do_operation m_s inp_s
      = Some [(''kSeneStem'', v1), (''kSeneLeaf'', v2), (''kSeneRoot'', v3),
              (''kSeneRhizome'', v4)]" by blast
  have "\<forall>n. n \<notin> set senescence_coefficient_logistic_get_outputs \<longrightarrow>
      apply_updates s_s [(''kSeneStem'', v1), (''kSeneLeaf'', v2), (''kSeneRoot'', v3),
                         (''kSeneRhizome'', v4)] n = s_s n"
    by (rule apply_updates_frame) (simp add: senescence_coefficient_logistic_get_outputs_def)
  with c show "\<exists>calls. senescence_coefficient_logistic_do_operation m_s inp_s = Some calls \<and>
         (\<forall>n. n \<notin> set senescence_coefficient_logistic_get_outputs \<longrightarrow>
              apply_updates s_s calls n = s_s n)"
    by blast
qed

theorem evaluation_frame_witness:
  "ball_berry_new example_quantities example_quantities = Inr ball_berry_bindings
   \<and> penman_monteith_leaf_temperature_new example_quantities example_quantities
       = Inr penman_monteith_leaf_temperature_bindings
   \<and> thermal_time_linear_new example_double_quantities example_double_quantities
       = Inr thermal_time_linear_bindings
   \<and> senescence_coefficient_logistic_new example_quantities example_quantities
       = Inr senescence_coefficient_logistic_bindings
   \<and> ''temp'' \<notin> set ball_berry_get_outputs
   \<and> ''temp'' \<notin> set penman_monteith_leaf_temperature_get_outputs
   \<and> ''temp'' \<notin> set thermal_time_linear_get_outputs
   \<and> ''temp'' \<notin> set senescence_coefficient_logistic_get_outputs
   \<and> (\<exists>calls. ball_berry_do_operation example_ball_berry_gs ball_berry_bindings
                 example_quantities = Some calls \<and>
               apply_updates example_quantities calls ''temp'' = example_quantities ''temp'')
   \<and> (\<exists>calls. penman_monteith_leaf_temperature_do_operation
                 penman_monteith_leaf_temperature_bindings example_quantities = Some calls \<and>
               apply_updates example_quantities calls ''temp'' = example_quantities ''temp'')
   \<and> (\<exists>calls. thermal_time_linear_do_operation thermal_time_linear_bindings
                 example_double_quantities = Some calls \<and>
               apply_updates example_double_quantities calls ''temp''
                 = example_double_quantities ''temp'')
   \<and> (\<exists>calls. senescence_coefficient_logistic_do_operation
                 senescence_coefficient_logistic_bindings example_quantities = Some calls \<and>
               apply_updates example_quantities calls ''temp'' = example_quantities ''temp'')"
proof -
  have n: "''temp'' \<notin> set ball_berry_get_outputs"
    "''temp'' \<notin> set penman_monteith_leaf_temperature_get_outputs"
    "''temp'' \<notin> set thermal_time_linear_get_outputs"
    "''temp'' \<notin> set senescence_coefficient_logistic_get_outputs"
    by (simp_all add: ball_berry_get_outputs_def
        penman_monteith_leaf_temperature_get_outputs_def thermal_time_linear_get_outputs_def
        senescence_coefficient_logistic_get_outputs_def)
  from evaluation_frame [where inp_b = example_quantities and out_b = example_quantities
      and m_b = ball_berry_bindings and ball_berry_gs = example_ball_berry_gs
      and s_b = example_quantities
      and inp_p = example_quantities and out_p = example_quantities
      and m_p = penman_monteith_leaf_temperature_bindings and s_p = example_quantities
      and inp_t = example_double_quantities and out_t = example_double_quantities
      and m_t = thermal_time_linear_bindings and s_t = example_double_quantities
      and inp_s = example_quantities and out_s = example_quantities
      and m_s = senescence_coefficient_logistic_bindings and s_s = example_quantities]
  show ?thesis
    using n by (simp add: example_constructions) blast
qed

section \<open>Evaluation depends on the declared inputs only\<close>

lemma ball_berry_inputs_cong:
  assumes "\<forall>n \<in> set ball_berry_get_inputs. i n = i' n"
  shows "ball_berry_do_operation gs ball_berry_bindings i
       = ball_berry_do_operation gs ball_berry_bindings i'"
  using assms
  by (simp add: ball_berry_do_operation_def ball_berry_get_inputs_def ball_berry_bindings_def)

lemma penman_monteith_leaf_temperature_inputs_cong:
  assumes "\<forall>n \<in> set penman_monteith_leaf_temperature_get_inputs. i n = i' n"
  shows "penman_monteith_leaf_temperature_do_operation penman_monteith_leaf_temperature_bindings i
       = penman_monteith_leaf_temperature_do_operation
           penman_monteith_leaf_temperature_bindings i'"
  using assms
  by (simp add: penman_monteith_leaf_temperature_do_operation_def
      penman_monteith_leaf_temperature_get_inputs_def
      penman_monteith_leaf_temperature_bindings_def)

lemma senescence_coefficient_logistic_inputs_cong:
  assumes "\<forall>n \<in> set senescence_coefficient_logistic_get_inputs. i n = i' n"
  shows "senescence_coefficient_logistic_do_operation senescence_coefficient_logistic_bindings i
       = senescence_coefficient_logistic_do_operation
           senescence_coefficient_logistic_bindings i'"
  using assms
  by (simp add: senescence_coefficient_logistic_do_operation_def
      senescence_coefficient_logistic_get_inputs_def
      senescence_coefficient_logistic_bindings_def)

text \<open>
  Claim C3. For each steady module (\<^verbatim>\<open>ball_berry\<close>, \<^verbatim>\<open>penman_monteith_leaf_temperature\<close>,
  \<^verbatim>\<open>senescence_coefficient_logistic\<close>): two modules constructed against two input stores
  that agree on the declared inputs make the same \<^verbatim>\<open>update\<close> calls, slot by slot and
  value by value, and after these calls the two output stores agree on every declared
  output. Nothing but the declared inputs is read: the stores may differ elsewhere, and
  the output stores may start with different contents.
\<close>

theorem steady_modules_deterministic:
  "(ball_berry_new inp_b out_b = Inr m_b \<and> ball_berry_new inp_b' out_b' = Inr m_b' \<and>
      (\<forall>n \<in> set ball_berry_get_inputs. inp_b n = inp_b' n) \<longrightarrow>
      (\<exists>calls. ball_berry_do_operation ball_berry_gs m_b inp_b = Some calls \<and>
               ball_berry_do_operation ball_berry_gs m_b' inp_b' = Some calls \<and>
               (\<forall>n \<in> set ball_berry_get_outputs.
                  apply_updates out_b calls n = apply_updates out_b' calls n)))
   \<and> (penman_monteith_leaf_temperature_new inp_p out_p = Inr m_p \<and>
      penman_monteith_leaf_temperature_new inp_p' out_p' = Inr m_p' \<and>
      (\<forall>n \<in> set penman_monteith_leaf_temperature_get_inputs. inp_p n = inp_p' n) \<longrightarrow>
      (\<exists>calls. penman_monteith_leaf_temperature_do_operation m_p inp_p = Some calls \<and>
               penman_monteith_leaf_temperature_do_operation m_p' inp_p' = Some calls \<and>
               (\<forall>n \<in> set penman_monteith_leaf_temperature_get_outputs.
                  apply_updates out_p calls n = apply_updates out_p' calls n)))
   \<and> (senescence_coefficient_logistic_new inp_s out_s = Inr m_s \<and>
      senescence_coefficient_logistic_new inp_s' out_s' = Inr m_s' \<and>
      (\<forall>n \<in> set senescence_coefficient_logistic_get_inputs. inp_s n = inp_s' n) \<longrightarrow>
      (\<exists>calls. senescence_coefficient_logistic_do_operation m_s inp_s = Some calls \<and>
               senescence_coefficient_logistic_do_operation m_s' inp_s' = Some calls \<and>
               (\<forall>n \<in> set senescence_coefficient_logistic_get_outputs.
                  apply_updates out_s calls n = apply_updates out_s' calls n)))"
proof (intro conjI impI)
  assume a: "ball_berry_new inp_b out_b = Inr m_b \<and> ball_berry_new inp_b' out_b' = Inr m_b' \<and>
      (\<forall>n \<in> set ball_berry_get_inputs. inp_b n = inp_b' n)"
  then have m: "m_b = ball_berry_bindings" "m_b' = ball_berry_bindings"
    by (simp_all add: ball_berry_new_Inr)
  from a ball_berry_calls [of inp_b out_b m_b ball_berry_gs]
  obtain v where c: "ball_berry_do_operation ball_berry_gs m_b inp_b
      = Some [(''leaf_stomatal_conductance'', v)]" by blast
  from a have "ball_berry_do_operation ball_berry_gs ball_berry_bindings inp_b
      = ball_berry_do_operation ball_berry_gs ball_berry_bindings inp_b'"
    by (intro ball_berry_inputs_cong) simp
  with c m have c': "ball_berry_do_operation ball_berry_gs m_b' inp_b'
      = Some [(''leaf_stomatal_conductance'', v)]" by simp
  have "\<forall>n \<in> set ball_berry_get_outputs.
      apply_updates out_b [(''leaf_stomatal_conductance'', v)] n
      = apply_updates out_b' [(''leaf_stomatal_conductance'', v)] n"
    by (intro ballI apply_updates_agree) (simp add: ball_berry_get_outputs_def)
  with c c' show "\<exists>calls. ball_berry_do_operation ball_berry_gs m_b inp_b = Some calls \<and>
               ball_berry_do_operation ball_berry_gs m_b' inp_b' = Some calls \<and>
               (\<forall>n \<in> set ball_berry_get_outputs.
                  apply_updates out_b calls n = apply_updates out_b' calls n)"
    by blast
next
  assume a: "penman_monteith_leaf_temperature_new inp_p out_p = Inr m_p \<and>
      penman_monteith_leaf_temperature_new inp_p' out_p' = Inr m_p' \<and>
      (\<forall>n \<in> set penman_monteith_leaf_temperature_get_inputs. inp_p n = inp_p' n)"
  then have m: "m_p = penman_monteith_leaf_temperature_bindings"
    "m_p' = penman_monteith_leaf_temperature_bindings"
    by (simp_all add: penman_monteith_leaf_temperature_new_Inr)
  from a penman_monteith_leaf_temperature_calls [of inp_p out_p m_p]
  obtain v where c: "penman_monteith_leaf_temperature_do_operation m_p inp_p
      = Some [(''leaf_temperature'', v)]" by blast
  from a have "penman_monteith_leaf_temperature_do_operation
        penman_monteith_leaf_temperature_bindings inp_p
      = penman_monteith_leaf_temperature_do_operation
        penman_monteith_leaf_temperature_bindings inp_p'"
    by (intro penman_monteith_leaf_temperature_inputs_cong) simp
  with c m have c': "penman_monteith_leaf_temperature_do_operation m_p' inp_p'
      = Some [(''leaf_temperature'', v)]" by simp
  have "\<forall>n \<in> set penman_monteith_leaf_temperature_get_outputs.
      apply_updates out_p [(''leaf_temperature'', v)] n
      = apply_updates out_p' [(''leaf_temperature'', v)] n"
    by (intro ballI apply_updates_agree)
      (simp add: penman_monteith_leaf_temperature_get_outputs_def)
  with c c' show "\<exists>calls. penman_monteith_leaf_temperature_do_operation m_p inp_p = Some calls \<and>
               penman_monteith_leaf_temperature_do_operation m_p' inp_p' = Some calls \<and>
               (\<forall>n \<in> set penman_monteith_leaf_temperature_get_outputs.
                  apply_updates out_p calls n = apply_updates out_p' calls n)"
    by blast
next
  assume a: "senescence_coefficient_logistic_new inp_s out_s = Inr m_s \<and>
      senescence_coefficient_logistic_new inp_s' out_s' = Inr m_s' \<and>
      (\<forall>n \<in> set senescence_coefficient_logistic_get_inputs. inp_s n = inp_s' n)"
  then have m: "m_s = senescence_coefficient_logistic_bindings"
    "m_s' = senescence_coefficient_logistic_bindings"
    by (simp_all add: senescence_coefficient_logistic_new_Inr)
  from a senescence_coefficient_logistic_calls [of inp_s out_s m_s]
  obtain v1 v2 v3 v4 where c: "senescence_coefficient_logistic_do_operation m_s inp_s
      = Some [(''kSeneStem'', v1), (''kSeneLeaf'', v2), (''kSeneRoot'', v3),
              (''kSeneRhizome'', v4)]" by blast
  from a have "senescence_coefficient_logistic_do_operation
        senescence_coefficient_logistic_bindings inp_s
      = senescence_coefficient_logistic_do_operation
        senescence_coefficient_logistic_bindings inp_s'"
    by (intro senescence_coefficient_logistic_inputs_cong) simp
  with c m have c': "senescence_coefficient_logistic_do_operation m_s' inp_s'
      = Some [(''kSeneStem'', v1), (''kSeneLeaf'', v2), (''kSeneRoot'', v3),
              (''kSeneRhizome'', v4)]" by simp
  have "\<forall>n \<in> set senescence_coefficient_logistic_get_outputs.
      apply_updates out_s [(''kSeneStem'', v1), (''kSeneLeaf'', v2), (''kSeneRoot'', v3),
              (''kSeneRhizome'', v4)] n
      = apply_updates out_s' [(''kSeneStem'', v1), (''kSeneLeaf'', v2), (''kSeneRoot'', v3),
              (''kSeneRhizome'', v4)] n"
    by (intro ballI apply_updates_agree)
      (simp add: senescence_coefficient_logistic_get_outputs_def)
  with c c' show "\<exists>calls. senescence_coefficient_logistic_do_operation m_s inp_s = Some calls \<and>
               senescence_coefficient_logistic_do_operation m_s' inp_s' = Some calls \<and>
               (\<forall>n \<in> set senescence_coefficient_logistic_get_outputs.
                  apply_updates out_s calls n = apply_updates out_s' calls n)"
    by blast
qed

theorem steady_modules_deterministic_witness:
  "ball_berry_new example_quantities Map.empty = Inr ball_berry_bindings
   \<and> ball_berry_new (example_quantities(''unrelated'' \<mapsto> 1))
       [''leaf_stomatal_conductance'' \<mapsto> 0] = Inr ball_berry_bindings
   \<and> list_all (\<lambda>n. example_quantities n = (example_quantities(''unrelated'' \<mapsto> 1)) n)
         ball_berry_get_inputs
   \<and> ball_berry_do_operation example_ball_berry_gs ball_berry_bindings example_quantities
       = ball_berry_do_operation example_ball_berry_gs ball_berry_bindings
           (example_quantities(''unrelated'' \<mapsto> 1))
   \<and> penman_monteith_leaf_temperature_do_operation penman_monteith_leaf_temperature_bindings
         example_quantities
       = penman_monteith_leaf_temperature_do_operation
           penman_monteith_leaf_temperature_bindings
           (example_quantities(''unrelated'' \<mapsto> 1))
   \<and> senescence_coefficient_logistic_do_operation senescence_coefficient_logistic_bindings
         example_quantities
       = senescence_coefficient_logistic_do_operation
           senescence_coefficient_logistic_bindings
           (example_quantities(''unrelated'' \<mapsto> 1))"
proof -
  have h: "\<forall>n \<in> set ball_berry_get_inputs.
         example_quantities n = (example_quantities(''unrelated'' \<mapsto> 1)) n"
    "\<forall>n \<in> set penman_monteith_leaf_temperature_get_inputs.
         example_quantities n = (example_quantities(''unrelated'' \<mapsto> 1)) n"
    "\<forall>n \<in> set senescence_coefficient_logistic_get_inputs.
         example_quantities n = (example_quantities(''unrelated'' \<mapsto> 1)) n"
    by (simp_all add: ball_berry_get_inputs_def
        penman_monteith_leaf_temperature_get_inputs_def
        senescence_coefficient_logistic_get_inputs_def)
  from steady_modules_deterministic [where inp_b = example_quantities and out_b = Map.empty
      and m_b = ball_berry_bindings
      and inp_b' = "example_quantities(''unrelated'' \<mapsto> 1)"
      and out_b' = "[''leaf_stomatal_conductance'' \<mapsto> 0]" and m_b' = ball_berry_bindings
      and ball_berry_gs = example_ball_berry_gs
      and inp_p = example_quantities and out_p = Map.empty
      and m_p = penman_monteith_leaf_temperature_bindings
      and inp_p' = "example_quantities(''unrelated'' \<mapsto> 1)"
      and out_p' = "[''leaf_temperature'' \<mapsto> 0]"
      and m_p' = penman_monteith_leaf_temperature_bindings
      and inp_s = example_quantities and out_s = Map.empty
      and m_s = senescence_coefficient_logistic_bindings
      and inp_s' = "example_quantities(''unrelated'' \<mapsto> 1)"
      and out_s' = "[''kSeneStem'' \<mapsto> 0]"
      and m_s' = senescence_coefficient_logistic_bindings]
  show ?thesis
    using h example_constructions example_constructions_extended
    by (auto simp: list_all_iff)
qed

section \<open>Decimal digits\<close>








section \<open>Generated names\<close>






















end
